theory Spec2Isabelle
  imports Complex_Main "HOL-Library.Word" "HOL-Library.AList"
begin

section \<open>Go values shared by the three chaincodes\<close>

text \<open>
  The repository holds three Hyperledger Fabric chaincodes written in Go: \<open>BondToken\<close>,
  \<open>Compliance\<close> and \<open>CorporateAction\<close>. Each one is a set of methods that read and write
  the ledger through \<open>ctx.GetStub()\<close>. The embedding below follows the Go text method by
  method: a struct is a record, the ledger is an association list from keys to stored
  documents, every \<open>return fmt.Errorf(...)\<close> is an error value, and each method returns its
  result together with the stub state it leaves behind.

  A field is named after its struct and its Go name (\<open>holder_Quantity\<close> is
  \<open>TokenHolder.Quantity\<close>), since several structs have fields of the same name. A stored
  document is kept as the struct it was marshalled from: on what the chaincodes store
  (strings of valid UTF-8, integers, times, finite floats, string maps) \<open>json.Unmarshal\<close>
  gives back what \<open>json.Marshal\<close> was given. The queries that scan the whole key range
  (\<open>GetAllBonds\<close>, \<open>GetBondHolders\<close>, \<open>GetAllKYC\<close>, \<open>GetAllAMLChecks\<close>, the coupon and
  redemption listings) are not part of the embedding.

  \<open>int64\<close> (and \<open>int\<close> on the 64-bit targets Fabric runs on) is a 64-bit word: \<open>+\<close> and
  \<open>-\<close> wrap as Go's do, and the comparisons of the source are the signed ones.
\<close>

type_synonym int64 = "64 word"

text \<open>
  A \<open>float64\<close> is either a finite number, kept as the rational it denotes, or one of
  the three special values. \<open>encoding/json\<close> refuses to marshal the special values, so a
  stored document only ever holds finite ones; the struct fields of type \<open>float64\<close>
  therefore carry the finite value itself, and the failing \<open>json.Marshal\<close> of a freshly
  built struct is the branch on the argument.
\<close>

datatype float64 = Finite rat | PosInf | NegInf | NaN











text \<open>
  \<open>time.Time\<close>, as far as the chaincodes look at it: a calendar date and the nanoseconds
  elapsed in that day. The zero value of Go is January 1 of year 1.
\<close>

datatype time = Time (year: nat) (month: nat) (day: nat) (nsec: nat)

definition zero_time :: time where
  "zero_time = Time 1 1 1 0"

text \<open>
  The two readings every method takes from its surroundings: the wall clock
  (\<open>time.Now()\<close>) and the transaction identifier (\<open>ctx.GetStub().GetTxID()\<close>). A method
  that reads the clock several times is given the same reading each time.
\<close>

record env =
  now :: time
  txID :: string

subsection \<open>Decimal digits, \<open>time.Parse\<close> and \<open>Time.Format\<close>\<close>

definition isDigit :: "char \<Rightarrow> bool" where
  "isDigit c = ((48::nat) \<le> of_char c \<and> of_char c \<le> (57::nat))"

definition digit_val :: "char \<Rightarrow> nat" where
  "digit_val c = of_char c - 48"

definition digit_char :: "nat \<Rightarrow> char" where
  "digit_char n = ''0123456789'' ! (n mod 10)"

text \<open>Decimal rendering of a natural number, most significant digit first.\<close>

function show_nat :: "nat \<Rightarrow> string" where
  "show_nat n = (if n < 10 then [digit_char n] else show_nat (n div 10) @ [digit_char n])"
  by pat_completeness auto
termination
  by (relation "measure id") auto

declare show_nat.simps [simp del]

definition zero_pad :: "nat \<Rightarrow> string \<Rightarrow> string" where
  "zero_pad w s = replicate (w - length s) (CHR ''0'') @ s"

definition isLeap :: "nat \<Rightarrow> bool" where
  "isLeap y = (y mod 4 = 0 \<and> (y mod 100 \<noteq> 0 \<or> y mod 400 = 0))"

definition daysIn :: "nat \<Rightarrow> nat \<Rightarrow> nat" where
  "daysIn m y =
     (if m = 2 then (if isLeap y then 29 else 28)
      else if m = 4 \<or> m = 6 \<or> m = 9 \<or> m = 11 then 30 else 31)"

text \<open>
  \<open>time.Parse("2006-01-02", s)\<close>: four digits, a hyphen, two digits, a hyphen, two digits
  and nothing else; the month must lie in 1..12 and the day must exist in that month.
  \<open>None\<close> is the parse error.
\<close>

definition parse_date :: "string \<Rightarrow> time option" where
  "parse_date s =
     (if length s = 10
         \<and> isDigit (s ! 0) \<and> isDigit (s ! 1) \<and> isDigit (s ! 2) \<and> isDigit (s ! 3)
         \<and> s ! 4 = CHR ''-'' \<and> isDigit (s ! 5) \<and> isDigit (s ! 6)
         \<and> s ! 7 = CHR ''-'' \<and> isDigit (s ! 8) \<and> isDigit (s ! 9)
      then
        (let y = digit_val (s ! 0) * 1000 + digit_val (s ! 1) * 100
                 + digit_val (s ! 2) * 10 + digit_val (s ! 3);
             m = digit_val (s ! 5) * 10 + digit_val (s ! 6);
             d = digit_val (s ! 8) * 10 + digit_val (s ! 9)
         in if 1 \<le> m \<and> m \<le> 12 \<and> 1 \<le> d \<and> d \<le> daysIn m y
            then Some (Time y m d 0) else None)
      else None)"

text \<open>\<open>t.Format("20060102")\<close>: the year on at least four digits, month and day on two.\<close>

definition format_yyyymmdd :: "time \<Rightarrow> string" where
  "format_yyyymmdd t =
     zero_pad 4 (show_nat (year t)) @ zero_pad 2 (show_nat (month t))
       @ zero_pad 2 (show_nat (day t))"

subsection \<open>The ledger stub\<close>

text \<open>
  The stub of one chaincode: its world state (keys to stored JSON documents, \<open>'d\<close>) and the
  event of the running transaction (\<open>SetEvent\<close> keeps the last one). \<open>GetState\<close> returns
  \<open>None\<close> for \<open>nil\<close>. The stub calls themselves do not fail: the substrate is taken as the
  total get/put interface the chaincodes are written against.
\<close>

record ('d, 'e) stub =
  ledger :: "(string \<times> 'd) list"
  event :: "(string \<times> 'e) option"

definition GetState :: "('d, 'e) stub \<Rightarrow> string \<Rightarrow> 'd option" where
  "GetState st key = map_of (ledger st) key"

definition PutState :: "string \<Rightarrow> 'd \<Rightarrow> ('d, 'e) stub \<Rightarrow> ('d, 'e) stub" where
  "PutState key v st = st\<lparr>ledger := AList.update key v (ledger st)\<rparr>"

definition SetEvent :: "string \<Rightarrow> 'e \<Rightarrow> ('d, 'e) stub \<Rightarrow> ('d, 'e) stub" where
  "SetEvent name payload st = st\<lparr>event := Some (name, payload)\<rparr>"

definition empty_stub :: "('d, 'e) stub" where
  "empty_stub = \<lparr>ledger = [], event = None\<rparr>"

subsection \<open>Errors\<close>

text \<open>
  One constructor for each \<open>fmt.Errorf\<close> of the three chaincodes, carrying the values the
  message is formatted from; a wrapped error (\<open>%v\<close> of an inner error) carries the inner one.
\<close>

datatype error =
    BondAlreadyExists string            \<comment> \<open>bond %s already exists\<close>
  | BondDoesNotExist string             \<comment> \<open>bond %s does not exist\<close>
  | InvalidMaturityDateFormat           \<comment> \<open>invalid maturity date format: %v\<close>
  | FailedToMarshalBond                 \<comment> \<open>failed to marshal bond: %v\<close>
  | QuantityMustBePositive              \<comment> \<open>quantity must be positive\<close>
  | HolderDoesNotExist string           \<comment> \<open>holder %s does not exist\<close>
  | FailedToGetSenderHolder error       \<comment> \<open>failed to get sender holder: %v\<close>
  | InsufficientBalanceMsg int64 int64  \<comment> \<open>insufficient balance: %d < %d\<close>
  | FailedToGetBond error               \<comment> \<open>failed to get bond: %v\<close>
  | KYCAlreadyExists string             \<comment> \<open>KYC for address %s already exists\<close>
  | KYCDoesNotExist string              \<comment> \<open>KYC for address %s does not exist\<close>
  | FailedToGetKYC error                \<comment> \<open>failed to get KYC: %v\<close>
  | AMLCheckDoesNotExist string         \<comment> \<open>AML check %s does not exist\<close>
  | AssignmentToNilMap                  \<comment> \<open>panic: assignment to entry in nil map\<close>
  | InvalidPaymentDateFormat            \<comment> \<open>invalid payment date format: %v\<close>
  | FailedToMarshalCouponPayment        \<comment> \<open>failed to marshal coupon payment: %v\<close>
  | CouponPaymentDoesNotExist string    \<comment> \<open>coupon payment %s does not exist\<close>
  | FailedToGetCouponPayment error      \<comment> \<open>failed to get coupon payment: %v\<close>
  | CouponPaymentNotPending string      \<comment> \<open>coupon payment %s is not pending\<close>
  | InvalidRedemptionDateFormat         \<comment> \<open>invalid redemption date format: %v\<close>
  | FailedToMarshalRedemption           \<comment> \<open>failed to marshal redemption: %v\<close>
  | RedemptionDoesNotExist string       \<comment> \<open>redemption %s does not exist\<close>
  | FailedToGetRedemption error         \<comment> \<open>failed to get redemption: %v\<close>
  | RedemptionNotPending string         \<comment> \<open>redemption %s is not pending\<close>

type_synonym 'a result = "error + 'a"

section \<open>The BondToken chaincode\<close>

record Bond =
  bond_ID :: string
  bond_IssuerID :: string
  bond_IssuerName :: string
  bond_FaceValue :: rat
  bond_CouponRate :: rat
  bond_MaturityDate :: time
  bond_IssueDate :: time
  bond_TotalSupply :: int64
  bond_AvailableSupply :: int64
  bond_Status :: string
  bond_Currency :: string
  bond_ISIN :: string
  bond_Rating :: string
  bond_Collateral :: string

record TokenHolder =
  holder_Address :: string
  holder_BondID :: string
  holder_Quantity :: int64
  holder_LastUpdated :: time
  holder_Metadata :: "(string \<rightharpoonup> string) option"

record TransferEvent =
  tev_From :: string
  tev_To :: string
  tev_BondID :: string
  tev_Quantity :: int64
  tev_Timestamp :: time
  tev_TxID :: string

text \<open>
  What a key of this chaincode can hold: the JSON of a \<open>Bond\<close> or the JSON of a
  \<open>TokenHolder\<close>. Bonds are stored under \<open>bondID\<close> and holders under
  \<open>address_bondID\<close>, in the same key space, and \<open>json.Unmarshal\<close> does not fail on a
  document of the other kind: the two structs share no JSON field name, so every field
  keeps its zero value.
\<close>

datatype bt_doc = BondDoc Bond | HolderDoc TokenHolder

type_synonym bt_stub = "(bt_doc, TransferEvent) stub"

definition zero_Bond :: Bond where
  "zero_Bond = \<lparr>bond_ID = [], bond_IssuerID = [], bond_IssuerName = [], bond_FaceValue = 0,
     bond_CouponRate = 0, bond_MaturityDate = zero_time, bond_IssueDate = zero_time,
     bond_TotalSupply = 0, bond_AvailableSupply = 0, bond_Status = [], bond_Currency = [],
     bond_ISIN = [], bond_Rating = [], bond_Collateral = []\<rparr>"

definition zero_TokenHolder :: TokenHolder where
  "zero_TokenHolder = \<lparr>holder_Address = [], holder_BondID = [], holder_Quantity = 0,
     holder_LastUpdated = zero_time, holder_Metadata = None\<rparr>"

fun unmarshal_Bond :: "bt_doc \<Rightarrow> Bond" where
  "unmarshal_Bond (BondDoc b) = b"
| "unmarshal_Bond (HolderDoc h) = zero_Bond"

fun unmarshal_TokenHolder :: "bt_doc \<Rightarrow> TokenHolder" where
  "unmarshal_TokenHolder (HolderDoc h) = h"
| "unmarshal_TokenHolder (BondDoc b) = zero_TokenHolder"

definition BondExists :: "bt_stub \<Rightarrow> string \<Rightarrow> bool" where
  "BondExists st bondID = (GetState st bondID \<noteq> None)"

definition GetBond :: "bt_stub \<Rightarrow> string \<Rightarrow> Bond result" where
  "GetBond st bondID =
     (case GetState st bondID of
        None \<Rightarrow> Inl (BondDoesNotExist bondID)
      | Some bondJSON \<Rightarrow> Inr (unmarshal_Bond bondJSON))"

definition GetTokenHolder :: "bt_stub \<Rightarrow> string \<Rightarrow> TokenHolder result" where
  "GetTokenHolder st holderKey =
     (case GetState st holderKey of
        None \<Rightarrow> Inl (HolderDoesNotExist holderKey)
      | Some holderJSON \<Rightarrow> Inr (unmarshal_TokenHolder holderJSON))"

text \<open>\<open>fmt.Sprintf("%s_%s", address, bondID)\<close>\<close>

definition holderKeyOf :: "string \<Rightarrow> string \<Rightarrow> string" where
  "holderKeyOf address bondID = address @ ''_'' @ bondID"

definition GetBalance :: "bt_stub \<Rightarrow> string \<Rightarrow> string \<Rightarrow> int64" where
  "GetBalance st address bondID =
     (case GetTokenHolder st (holderKeyOf address bondID) of
        Inl err \<Rightarrow> 0
      | Inr holder \<Rightarrow> holder_Quantity holder)"

definition IssueBond ::
  "env \<Rightarrow> string \<Rightarrow> string \<Rightarrow> string \<Rightarrow> string \<Rightarrow> string \<Rightarrow> string \<Rightarrow> string
     \<Rightarrow> float64 \<Rightarrow> float64 \<Rightarrow> int64 \<Rightarrow> string \<Rightarrow> bt_stub \<Rightarrow> unit result \<times> bt_stub" where
  "IssueBond e bondID issuerID issuerName currency isin rating collateral
       faceValue couponRate totalSupply maturityDateStr st =
     (if BondExists st bondID then (Inl (BondAlreadyExists bondID), st)
      else case parse_date maturityDateStr of
        None \<Rightarrow> (Inl InvalidMaturityDateFormat, st)
      | Some maturityDate \<Rightarrow>
         (case (faceValue, couponRate) of
            (Finite fv, Finite cr) \<Rightarrow>
              (let bond = \<lparr>bond_ID = bondID, bond_IssuerID = issuerID,
                     bond_IssuerName = issuerName, bond_FaceValue = fv,
                     bond_CouponRate = cr, bond_MaturityDate = maturityDate,
                     bond_IssueDate = now e, bond_TotalSupply = totalSupply,
                     bond_AvailableSupply = totalSupply, bond_Status = ''ACTIVE'',
                     bond_Currency = currency, bond_ISIN = isin, bond_Rating = rating,
                     bond_Collateral = collateral\<rparr>;
                   st1 = PutState bondID (BondDoc bond) st;
                   ev = \<lparr>tev_From = ''SYSTEM'', tev_To = issuerID, tev_BondID = bondID,
                     tev_Quantity = totalSupply, tev_Timestamp = now e,
                     tev_TxID = txID e\<rparr>
               in (Inr (), SetEvent ''BondIssued'' ev st1))
          | _ \<Rightarrow> (Inl FailedToMarshalBond, st)))"

definition Transfer ::
  "env \<Rightarrow> string \<Rightarrow> string \<Rightarrow> string \<Rightarrow> int64 \<Rightarrow> bt_stub \<Rightarrow> unit result \<times> bt_stub" where
  "Transfer e from to bondID quantity st =
     (if \<not> BondExists st bondID then (Inl (BondDoesNotExist bondID), st)
      else if quantity <=s 0 then (Inl QuantityMustBePositive, st)
      else
        (let senderKey = holderKeyOf from bondID in
         case GetTokenHolder st senderKey of
           Inl err \<Rightarrow> (Inl (FailedToGetSenderHolder err), st)
         | Inr senderHolder \<Rightarrow>
            if holder_Quantity senderHolder <s quantity
            then (Inl (InsufficientBalanceMsg (holder_Quantity senderHolder) quantity), st)
            else
              (let recipientKey = holderKeyOf to bondID;
                   recipientHolder =
                     (case GetTokenHolder st recipientKey of
                        Inl err \<Rightarrow> \<lparr>holder_Address = to, holder_BondID = bondID,
                                     holder_Quantity = 0, holder_LastUpdated = now e,
                                     holder_Metadata = Some Map.empty\<rparr>
                      | Inr h \<Rightarrow> h);
                   senderHolder' = senderHolder
                     \<lparr>holder_Quantity := holder_Quantity senderHolder - quantity,
                      holder_LastUpdated := now e\<rparr>;
                   recipientHolder' = recipientHolder
                     \<lparr>holder_Quantity := holder_Quantity recipientHolder + quantity,
                      holder_LastUpdated := now e\<rparr>;
                   st1 = PutState senderKey (HolderDoc senderHolder') st;
                   st2 = PutState recipientKey (HolderDoc recipientHolder') st1;
                   ev = \<lparr>tev_From = from, tev_To = to, tev_BondID = bondID,
                     tev_Quantity = quantity, tev_Timestamp = now e, tev_TxID = txID e\<rparr>
               in (Inr (), SetEvent ''TokensTransferred'' ev st2))))"

definition UpdateBondStatus ::
  "string \<Rightarrow> string \<Rightarrow> bt_stub \<Rightarrow> unit result \<times> bt_stub" where
  "UpdateBondStatus bondID newStatus st =
     (case GetBond st bondID of
        Inl err \<Rightarrow> (Inl (FailedToGetBond err), st)
      | Inr bond \<Rightarrow> (Inr (), PutState bondID (BondDoc (bond\<lparr>bond_Status := newStatus\<rparr>)) st))"

section \<open>The Compliance chaincode\<close>

record KYCRecord =
  kyc_Address :: string
  kyc_FullName :: string
  kyc_DateOfBirth :: string
  kyc_Nationality :: string
  kyc_IDType :: string
  kyc_IDNumber :: string
  kyc_Status :: string
  kyc_RiskLevel :: string
  kyc_ApprovedBy :: string
  kyc_ApprovedAt :: time
  kyc_CreatedAt :: time
  kyc_UpdatedAt :: time
  kyc_Metadata :: "(string \<rightharpoonup> string) option"

record AMLCheck =
  aml_Address :: string
  aml_CheckType :: string
  aml_Status :: string
  aml_RiskScore :: int64
  aml_CheckDate :: time
  aml_ExpiryDate :: time
  aml_Details :: string
  aml_CheckedBy :: string

record ComplianceEvent =
  cev_Type :: string
  cev_Address :: string
  cev_Details :: string
  cev_Timestamp :: time
  cev_TxID :: string

text \<open>
  KYC records are stored under \<open>address\<close> and AML checks under \<open>address_checkType\<close>, again
  in one key space. The two structs share the JSON fields \<open>address\<close> and \<open>status\<close>, both
  strings, so unmarshalling a document of the other kind succeeds and fills exactly these
  two fields; a map that is absent from the JSON stays \<open>nil\<close> (\<open>None\<close>).
\<close>

datatype cp_doc = KYCDoc KYCRecord | AMLDoc AMLCheck

type_synonym cp_stub = "(cp_doc, ComplianceEvent) stub"

definition zero_KYCRecord :: KYCRecord where
  "zero_KYCRecord = \<lparr>kyc_Address = [], kyc_FullName = [], kyc_DateOfBirth = [],
     kyc_Nationality = [], kyc_IDType = [], kyc_IDNumber = [], kyc_Status = [],
     kyc_RiskLevel = [], kyc_ApprovedBy = [], kyc_ApprovedAt = zero_time,
     kyc_CreatedAt = zero_time, kyc_UpdatedAt = zero_time, kyc_Metadata = None\<rparr>"

definition zero_AMLCheck :: AMLCheck where
  "zero_AMLCheck = \<lparr>aml_Address = [], aml_CheckType = [], aml_Status = [],
     aml_RiskScore = 0, aml_CheckDate = zero_time, aml_ExpiryDate = zero_time,
     aml_Details = [], aml_CheckedBy = []\<rparr>"

fun unmarshal_KYCRecord :: "cp_doc \<Rightarrow> KYCRecord" where
  "unmarshal_KYCRecord (KYCDoc k) = k"
| "unmarshal_KYCRecord (AMLDoc a) =
     zero_KYCRecord\<lparr>kyc_Address := aml_Address a, kyc_Status := aml_Status a\<rparr>"

fun unmarshal_AMLCheck :: "cp_doc \<Rightarrow> AMLCheck" where
  "unmarshal_AMLCheck (AMLDoc a) = a"
| "unmarshal_AMLCheck (KYCDoc k) =
     zero_AMLCheck\<lparr>aml_Address := kyc_Address k, aml_Status := kyc_Status k\<rparr>"

definition KYCExists :: "cp_stub \<Rightarrow> string \<Rightarrow> bool" where
  "KYCExists st address = (GetState st address \<noteq> None)"

definition GetKYC :: "cp_stub \<Rightarrow> string \<Rightarrow> KYCRecord result" where
  "GetKYC st address =
     (case GetState st address of
        None \<Rightarrow> Inl (KYCDoesNotExist address)
      | Some kycJSON \<Rightarrow> Inr (unmarshal_KYCRecord kycJSON))"

definition GetAMLCheck :: "cp_stub \<Rightarrow> string \<Rightarrow> AMLCheck result" where
  "GetAMLCheck st checkKey =
     (case GetState st checkKey of
        None \<Rightarrow> Inl (AMLCheckDoesNotExist checkKey)
      | Some checkJSON \<Rightarrow> Inr (unmarshal_AMLCheck checkJSON))"

definition CreateKYC ::
  "env \<Rightarrow> string \<Rightarrow> string \<Rightarrow> string \<Rightarrow> string \<Rightarrow> string \<Rightarrow> string \<Rightarrow> cp_stub
     \<Rightarrow> unit result \<times> cp_stub" where
  "CreateKYC e address fullName dateOfBirth nationality idType idNumber st =
     (if KYCExists st address then (Inl (KYCAlreadyExists address), st)
      else
        (let kyc = \<lparr>kyc_Address = address, kyc_FullName = fullName,
               kyc_DateOfBirth = dateOfBirth, kyc_Nationality = nationality,
               kyc_IDType = idType, kyc_IDNumber = idNumber, kyc_Status = ''PENDING'',
               kyc_RiskLevel = ''MEDIUM'', kyc_ApprovedBy = [], kyc_ApprovedAt = zero_time,
               kyc_CreatedAt = now e, kyc_UpdatedAt = now e,
               kyc_Metadata = Some Map.empty\<rparr>;
             st1 = PutState address (KYCDoc kyc) st;
             ev = \<lparr>cev_Type = ''KYC_CREATED'', cev_Address = address,
               cev_Details = ''KYC created for '' @ fullName, cev_Timestamp = now e,
               cev_TxID = txID e\<rparr>
         in (Inr (), SetEvent ''KYCEvent'' ev st1)))"

definition ApproveKYC ::
  "env \<Rightarrow> string \<Rightarrow> string \<Rightarrow> string \<Rightarrow> cp_stub \<Rightarrow> unit result \<times> cp_stub" where
  "ApproveKYC e address approvedBy riskLevel st =
     (case GetKYC st address of
        Inl err \<Rightarrow> (Inl (FailedToGetKYC err), st)
      | Inr kyc \<Rightarrow>
         (let kyc' = kyc\<lparr>kyc_Status := ''APPROVED'', kyc_RiskLevel := riskLevel,
                kyc_ApprovedBy := approvedBy, kyc_ApprovedAt := now e,
                kyc_UpdatedAt := now e\<rparr>;
              st1 = PutState address (KYCDoc kyc') st;
              ev = \<lparr>cev_Type = ''KYC_APPROVED'', cev_Address = address,
                cev_Details = ''KYC approved by '' @ approvedBy, cev_Timestamp = now e,
                cev_TxID = txID e\<rparr>
          in (Inr (), SetEvent ''KYCEvent'' ev st1)))"

definition RejectKYC ::
  "env \<Rightarrow> string \<Rightarrow> string \<Rightarrow> string \<Rightarrow> cp_stub \<Rightarrow> unit result \<times> cp_stub" where
  "RejectKYC e address rejectedBy reason st =
     (case GetKYC st address of
        Inl err \<Rightarrow> (Inl (FailedToGetKYC err), st)
      | Inr kyc \<Rightarrow>
         (case kyc_Metadata kyc of
            None \<Rightarrow> (Inl AssignmentToNilMap, st)
          | Some md \<Rightarrow>
             (let kyc' = kyc\<lparr>kyc_Status := ''REJECTED'', kyc_UpdatedAt := now e,
                    kyc_Metadata := Some (md(''rejection_reason'' \<mapsto> reason,
                                              ''rejected_by'' \<mapsto> rejectedBy))\<rparr>;
                  st1 = PutState address (KYCDoc kyc') st;
                  ev = \<lparr>cev_Type = ''KYC_REJECTED'', cev_Address = address,
                    cev_Details = ''KYC rejected by '' @ rejectedBy @ '': '' @ reason,
                    cev_Timestamp = now e, cev_TxID = txID e\<rparr>
              in (Inr (), SetEvent ''KYCEvent'' ev st1))))"

text \<open>\<open>t.AddDate(0, 6, 0)\<close>: six months later, a day past the end of the month rolling over.\<close>

definition AddDate_6_months :: "time \<Rightarrow> time" where
  "AddDate_6_months t =
     (let m0 = month t + 6;
          y = (if 12 < m0 then year t + 1 else year t);
          m = (if 12 < m0 then m0 - 12 else m0);
          dim = daysIn m y
      in if day t \<le> dim then Time y m (day t) (nsec t)
         else Time (if m = 12 then y + 1 else y) (if m = 12 then 1 else m + 1)
                (day t - dim) (nsec t))"

definition CreateAMLCheck ::
  "env \<Rightarrow> string \<Rightarrow> string \<Rightarrow> int64 \<Rightarrow> string \<Rightarrow> cp_stub \<Rightarrow> unit result \<times> cp_stub" where
  "CreateAMLCheck e address checkType riskScore details st =
     (let checkKey = address @ ''_'' @ checkType;
          amlCheck = \<lparr>aml_Address = address, aml_CheckType = checkType,
            aml_Status = ''PENDING'', aml_RiskScore = riskScore, aml_CheckDate = now e,
            aml_ExpiryDate = AddDate_6_months (now e), aml_Details = details,
            aml_CheckedBy = ''SYSTEM''\<rparr>;
          st1 = PutState checkKey (AMLDoc amlCheck) st;
          ev = \<lparr>cev_Type = ''AML_CHECK_CREATED'', cev_Address = address,
            cev_Details = ''AML check created for '' @ address @ '': '' @ checkType,
            cev_Timestamp = now e, cev_TxID = txID e\<rparr>
      in (Inr (), SetEvent ''AMLEvent'' ev st1))"

definition UpdateAMLCheck ::
  "env \<Rightarrow> string \<Rightarrow> string \<Rightarrow> string \<Rightarrow> int64 \<Rightarrow> string \<Rightarrow> cp_stub
     \<Rightarrow> unit result \<times> cp_stub" where
  "UpdateAMLCheck e address checkType status riskScore details st =
     (let checkKey = address @ ''_'' @ checkType in
      case GetState st checkKey of
        None \<Rightarrow> (Inl (AMLCheckDoesNotExist checkKey), st)
      | Some checkJSON \<Rightarrow>
         (let amlCheck = (unmarshal_AMLCheck checkJSON)
                \<lparr>aml_Status := status, aml_RiskScore := riskScore,
                 aml_Details := details, aml_CheckDate := now e\<rparr>;
              st1 = PutState checkKey (AMLDoc amlCheck) st;
              ev = \<lparr>cev_Type = ''AML_CHECK_UPDATED'', cev_Address = address,
                cev_Details = ''AML check updated for '' @ address @ '': '' @ checkType
                              @ '' - '' @ status,
                cev_Timestamp = now e, cev_TxID = txID e\<rparr>
          in (Inr (), SetEvent ''AMLEvent'' ev st1)))"

text \<open>
  \<open>CheckCompliance\<close> returns \<open>(bool, string, error)\<close> with the error always \<open>nil\<close>; the
  model returns the pair. It takes the stub and returns no stub: it has no write.
\<close>

definition amlFailed :: "cp_stub \<Rightarrow> string \<Rightarrow> bool" where
  \<comment> \<open>\<open>check, err := c.GetAMLCheck(ctx, key); err == nil && check.Status == "FAILED"\<close>\<close>
  "amlFailed st checkKey =
     (case GetAMLCheck st checkKey of
        Inl err \<Rightarrow> False
      | Inr check \<Rightarrow> aml_Status check = ''FAILED'')"

definition CheckCompliance :: "cp_stub \<Rightarrow> string \<Rightarrow> bool \<times> string" where
  "CheckCompliance st address =
     (case GetKYC st address of
        Inl err \<Rightarrow> (False, ''KYC record not found'')
      | Inr kyc \<Rightarrow>
         if kyc_Status kyc \<noteq> ''APPROVED'' then (False, ''KYC status: '' @ kyc_Status kyc)
         else
           (let sanctionsKey = address @ ''_SANCTIONS'';
                pepKey = address @ ''_PEP''
            in if amlFailed st sanctionsKey then (False, ''Sanctions check failed'')
               else if amlFailed st pepKey then (False, ''PEP check failed'')
               else (True, ''Compliant'')))"

section \<open>The CorporateAction chaincode\<close>

record CouponPayment =
  coupon_ID :: string
  coupon_BondID :: string
  coupon_PaymentDate :: time
  coupon_Amount :: rat
  coupon_Status :: string
  coupon_PaidAt :: time
  coupon_TxID :: string
  coupon_Metadata :: "(string \<rightharpoonup> string) option"

record Redemption =
  redemption_ID :: string
  redemption_BondID :: string
  redemption_RedemptionDate :: time
  redemption_Amount :: rat
  redemption_Status :: string
  redemption_CompletedAt :: time
  redemption_TxID :: string
  redemption_Metadata :: "(string \<rightharpoonup> string) option"

record CorporateActionEvent =
  caev_Type :: string
  caev_BondID :: string
  caev_Details :: string
  caev_Amount :: rat
  caev_Timestamp :: time
  caev_TxID :: string

text \<open>
  Coupon payments and redemptions live in one key space too. Their JSON shares every
  field but the two dates (\<open>paymentDate\<close>/\<open>redemptionDate\<close>, \<open>paidAt\<close>/\<open>completedAt\<close>), with
  the same types, so a document of one kind unmarshals into the other struct with the
  shared fields copied and the two dates zero.
\<close>

datatype ca_doc = CouponDoc CouponPayment | RedemptionDoc Redemption

type_synonym ca_stub = "(ca_doc, CorporateActionEvent) stub"

fun unmarshal_CouponPayment :: "ca_doc \<Rightarrow> CouponPayment" where
  "unmarshal_CouponPayment (CouponDoc c) = c"
| "unmarshal_CouponPayment (RedemptionDoc r) =
     \<lparr>coupon_ID = redemption_ID r, coupon_BondID = redemption_BondID r,
      coupon_PaymentDate = zero_time, coupon_Amount = redemption_Amount r,
      coupon_Status = redemption_Status r, coupon_PaidAt = zero_time,
      coupon_TxID = redemption_TxID r, coupon_Metadata = redemption_Metadata r\<rparr>"

fun unmarshal_Redemption :: "ca_doc \<Rightarrow> Redemption" where
  "unmarshal_Redemption (RedemptionDoc r) = r"
| "unmarshal_Redemption (CouponDoc c) =
     \<lparr>redemption_ID = coupon_ID c, redemption_BondID = coupon_BondID c,
      redemption_RedemptionDate = zero_time, redemption_Amount = coupon_Amount c,
      redemption_Status = coupon_Status c, redemption_CompletedAt = zero_time,
      redemption_TxID = coupon_TxID c, redemption_Metadata = coupon_Metadata c\<rparr>"

definition GetCouponPayment :: "ca_stub \<Rightarrow> string \<Rightarrow> CouponPayment result" where
  "GetCouponPayment st couponID =
     (case GetState st couponID of
        None \<Rightarrow> Inl (CouponPaymentDoesNotExist couponID)
      | Some couponJSON \<Rightarrow> Inr (unmarshal_CouponPayment couponJSON))"

definition GetRedemption :: "ca_stub \<Rightarrow> string \<Rightarrow> Redemption result" where
  "GetRedemption st redemptionID =
     (case GetState st redemptionID of
        None \<Rightarrow> Inl (RedemptionDoesNotExist redemptionID)
      | Some redemptionJSON \<Rightarrow> Inr (unmarshal_Redemption redemptionJSON))"

definition CreateCouponPayment ::
  "env \<Rightarrow> string \<Rightarrow> string \<Rightarrow> float64 \<Rightarrow> ca_stub \<Rightarrow> unit result \<times> ca_stub" where
  "CreateCouponPayment e bondID paymentDateStr amount st =
     (let couponID = ''COUPON_'' @ bondID @ ''_'' @ format_yyyymmdd (now e) in
      case parse_date paymentDateStr of
        None \<Rightarrow> (Inl InvalidPaymentDateFormat, st)
      | Some paymentDate \<Rightarrow>
         (case amount of
            Finite a \<Rightarrow>
              (let couponPayment = \<lparr>coupon_ID = couponID, coupon_BondID = bondID,
                     coupon_PaymentDate = paymentDate, coupon_Amount = a,
                     coupon_Status = ''PENDING'', coupon_PaidAt = zero_time,
                     coupon_TxID = [], coupon_Metadata = Some Map.empty\<rparr>;
                   st1 = PutState couponID (CouponDoc couponPayment) st;
                   ev = \<lparr>caev_Type = ''COUPON_PAYMENT_CREATED'', caev_BondID = bondID,
                     caev_Details = ''Coupon payment created for bond '' @ bondID,
                     caev_Amount = a, caev_Timestamp = now e, caev_TxID = txID e\<rparr>
               in (Inr (), SetEvent ''CorporateActionEvent'' ev st1))
          | _ \<Rightarrow> (Inl FailedToMarshalCouponPayment, st)))"

definition ProcessCouponPayment ::
  "env \<Rightarrow> string \<Rightarrow> ca_stub \<Rightarrow> unit result \<times> ca_stub" where
  "ProcessCouponPayment e couponID st =
     (case GetCouponPayment st couponID of
        Inl err \<Rightarrow> (Inl (FailedToGetCouponPayment err), st)
      | Inr couponPayment \<Rightarrow>
         if coupon_Status couponPayment \<noteq> ''PENDING''
         then (Inl (CouponPaymentNotPending couponID), st)
         else
           (let couponPayment' = couponPayment\<lparr>coupon_Status := ''PAID'',
                  coupon_PaidAt := now e, coupon_TxID := txID e\<rparr>;
                st1 = PutState couponID (CouponDoc couponPayment') st;
                ev = \<lparr>caev_Type = ''COUPON_PAYMENT_PROCESSED'',
                  caev_BondID = coupon_BondID couponPayment',
                  caev_Details = ''Coupon payment '' @ couponID @ '' processed'',
                  caev_Amount = coupon_Amount couponPayment', caev_Timestamp = now e,
                  caev_TxID = txID e\<rparr>
            in (Inr (), SetEvent ''CorporateActionEvent'' ev st1)))"

definition CreateRedemption ::
  "env \<Rightarrow> string \<Rightarrow> string \<Rightarrow> float64 \<Rightarrow> ca_stub \<Rightarrow> unit result \<times> ca_stub" where
  "CreateRedemption e bondID redemptionDateStr amount st =
     (let redemptionID = ''REDEMPTION_'' @ bondID @ ''_'' @ format_yyyymmdd (now e) in
      case parse_date redemptionDateStr of
        None \<Rightarrow> (Inl InvalidRedemptionDateFormat, st)
      | Some redemptionDate \<Rightarrow>
         (case amount of
            Finite a \<Rightarrow>
              (let redemption = \<lparr>redemption_ID = redemptionID, redemption_BondID = bondID,
                     redemption_RedemptionDate = redemptionDate, redemption_Amount = a,
                     redemption_Status = ''PENDING'', redemption_CompletedAt = zero_time,
                     redemption_TxID = [], redemption_Metadata = Some Map.empty\<rparr>;
                   st1 = PutState redemptionID (RedemptionDoc redemption) st;
                   ev = \<lparr>caev_Type = ''REDEMPTION_CREATED'', caev_BondID = bondID,
                     caev_Details = ''Redemption created for bond '' @ bondID,
                     caev_Amount = a, caev_Timestamp = now e, caev_TxID = txID e\<rparr>
               in (Inr (), SetEvent ''CorporateActionEvent'' ev st1))
          | _ \<Rightarrow> (Inl FailedToMarshalRedemption, st)))"

definition ProcessRedemption ::
  "env \<Rightarrow> string \<Rightarrow> ca_stub \<Rightarrow> unit result \<times> ca_stub" where
  "ProcessRedemption e redemptionID st =
     (case GetRedemption st redemptionID of
        Inl err \<Rightarrow> (Inl (FailedToGetRedemption err), st)
      | Inr redemption \<Rightarrow>
         if redemption_Status redemption \<noteq> ''PENDING''
         then (Inl (RedemptionNotPending redemptionID), st)
         else
           (let redemption' = redemption\<lparr>redemption_Status := ''COMPLETED'',
                  redemption_CompletedAt := now e, redemption_TxID := txID e\<rparr>;
                st1 = PutState redemptionID (RedemptionDoc redemption') st;
                ev = \<lparr>caev_Type = ''REDEMPTION_PROCESSED'',
                  caev_BondID = redemption_BondID redemption',
                  caev_Details = ''Redemption '' @ redemptionID @ '' processed'',
                  caev_Amount = redemption_Amount redemption', caev_Timestamp = now e,
                  caev_TxID = txID e\<rparr>
            in (Inr (), SetEvent ''CorporateActionEvent'' ev st1)))"


section \<open>Notions the properties are stated with\<close>

text \<open>
  The error kinds of the specification, and the kind of each message of the code. A
  wrapping message has the kind of the error it wraps.
\<close>

datatype error_kind =
    AlreadyExists | NotFound | InvalidArgument | InsufficientBalance | InvalidState
  | SerializationError | RuntimePanic

fun kind_of :: "error \<Rightarrow> error_kind" where
  "kind_of (BondAlreadyExists b) = AlreadyExists"
| "kind_of (BondDoesNotExist b) = NotFound"
| "kind_of InvalidMaturityDateFormat = InvalidArgument"
| "kind_of FailedToMarshalBond = SerializationError"
| "kind_of QuantityMustBePositive = InvalidArgument"
| "kind_of (HolderDoesNotExist k) = NotFound"
| "kind_of (FailedToGetSenderHolder err) = kind_of err"
| "kind_of (InsufficientBalanceMsg have want) = InsufficientBalance"
| "kind_of (FailedToGetBond err) = kind_of err"
| "kind_of (KYCAlreadyExists a) = AlreadyExists"
| "kind_of (KYCDoesNotExist a) = NotFound"
| "kind_of (FailedToGetKYC err) = kind_of err"
| "kind_of (AMLCheckDoesNotExist k) = NotFound"
| "kind_of AssignmentToNilMap = RuntimePanic"
| "kind_of InvalidPaymentDateFormat = InvalidArgument"
| "kind_of FailedToMarshalCouponPayment = SerializationError"
| "kind_of (CouponPaymentDoesNotExist c) = NotFound"
| "kind_of (FailedToGetCouponPayment err) = kind_of err"
| "kind_of (CouponPaymentNotPending c) = InvalidState"
| "kind_of InvalidRedemptionDateFormat = InvalidArgument"
| "kind_of FailedToMarshalRedemption = SerializationError"
| "kind_of (RedemptionDoesNotExist r) = NotFound"
| "kind_of (FailedToGetRedemption err) = kind_of err"
| "kind_of (RedemptionNotPending r) = InvalidState"

text \<open>
  The holders of a bond are the stored \<open>TokenHolder\<close> documents that name it; their total
  is the sum of the quantities, read as signed integers.
\<close>

fun holder_of :: "string \<Rightarrow> string \<times> bt_doc \<Rightarrow> TokenHolder list" where
  "holder_of bondID (k, HolderDoc h) = (if holder_BondID h = bondID then [h] else [])"
| "holder_of bondID (k, BondDoc b) = []"

definition bond_holders :: "bt_stub \<Rightarrow> string \<Rightarrow> TokenHolder list" where
  "bond_holders st bondID = concat (map (holder_of bondID) (ledger st))"

definition holders_total :: "bt_stub \<Rightarrow> string \<Rightarrow> int" where
  "holders_total st bondID = sum_list (map (\<lambda>h. sint (holder_Quantity h)) (bond_holders st bondID))"

text \<open>What the document under one key adds to the total of a bond.\<close>

fun contribution :: "string \<Rightarrow> bt_doc option \<Rightarrow> int" where
  "contribution bondID None = 0"
| "contribution bondID (Some (BondDoc b)) = 0"
| "contribution bondID (Some (HolderDoc h)) =
     (if holder_BondID h = bondID then sint (holder_Quantity h) else 0)"







section \<open>Scenarios\<close>

text \<open>
  Concrete ledgers, built with the chaincode methods themselves wherever the methods can
  build them. \<open>ex_issued\<close> is the BondToken ledger right after the issuance of the end-to-end
  scenario; the ledgers that hold \<open>TokenHolder\<close> documents add them with \<open>PutState\<close>.
\<close>

definition ex_env :: env where
  "ex_env = \<lparr>now = Time 2024 1 15 0, txID = ''tx1''\<rparr>"

definition ex_env2 :: env where
  "ex_env2 = \<lparr>now = Time 2024 1 15 7200, txID = ''tx2''\<rparr>"

definition ex_issued :: bt_stub where
  "ex_issued = snd (IssueBond ex_env ''BOND_001'' ''issuer001'' ''ABC Corp'' ''USD''
      ''US0000000001'' ''AA'' ''none'' (Finite 1000) (Finite 5) 1000 ''2029-01-01'' empty_stub)"

definition ex_holder :: "string \<Rightarrow> int64 \<Rightarrow> TokenHolder" where
  "ex_holder a q = \<lparr>holder_Address = a, holder_BondID = ''BOND_001'', holder_Quantity = q,
     holder_LastUpdated = Time 2024 1 15 0, holder_Metadata = Some Map.empty\<rparr>"

definition ex_credited :: bt_stub where
  "ex_credited =
     PutState ''issuer001_BOND_001'' (HolderDoc (ex_holder ''issuer001'' 1000)) ex_issued"

definition ex_two_holders :: bt_stub where
  "ex_two_holders =
     PutState ''bob_BOND_001'' (HolderDoc (ex_holder ''bob'' 9223372036854775807))
       (PutState ''alice_BOND_001'' (HolderDoc (ex_holder ''alice'' 1)) ex_issued)"

definition cp_pending :: cp_stub where
  "cp_pending = snd (CreateKYC ex_env ''alice'' ''Alice Johnson'' ''1990-01-01'' ''US''
      ''PASSPORT'' ''US123456'' empty_stub)"

definition cp_approved :: cp_stub where
  "cp_approved = snd (ApproveKYC ex_env ''alice'' ''admin'' ''LOW'' cp_pending)"

definition cp_rejected :: cp_stub where
  "cp_rejected =
     snd (RejectKYC ex_env ''alice'' ''admin'' ''Incomplete documentation'' cp_pending)"

definition cp_sanctions_failed :: cp_stub where
  "cp_sanctions_failed =
     snd (UpdateAMLCheck ex_env ''alice'' ''SANCTIONS'' ''FAILED'' 90 ''listed''
       (snd (CreateAMLCheck ex_env ''alice'' ''SANCTIONS'' 75 ''screening'' cp_approved)))"

definition cp_pep_failed :: cp_stub where
  "cp_pep_failed =
     snd (UpdateAMLCheck ex_env ''alice'' ''PEP'' ''FAILED'' 90 ''listed''
       (snd (CreateAMLCheck ex_env ''alice'' ''PEP'' 75 ''screening'' cp_approved)))"

definition cp_adverse_media_failed :: cp_stub where
  "cp_adverse_media_failed =
     snd (UpdateAMLCheck ex_env ''alice'' ''ADVERSE_MEDIA'' ''FAILED'' 90 ''press''
       (snd (CreateAMLCheck ex_env ''alice'' ''ADVERSE_MEDIA'' 75 ''screening'' cp_approved)))"

definition ca_created :: ca_stub where
  "ca_created =
     snd (CreateCouponPayment ex_env ''BOND_001'' ''2024-06-01'' (Finite 50) empty_stub)"

definition ca_paid :: ca_stub where
  "ca_paid = snd (ProcessCouponPayment ex_env ''COUPON_BOND_001_20240115'' ca_created)"

definition ca_redemption_created :: ca_stub where
  "ca_redemption_created =
     snd (CreateRedemption ex_env ''BOND_001'' ''2029-01-01'' (Finite 1000) empty_stub)"

definition ca_redeemed :: ca_stub where
  "ca_redeemed =
     snd (ProcessRedemption ex_env ''REDEMPTION_BOND_001_20240115'' ca_redemption_created)"


section \<open>Evaluation and lookup lemmas\<close>

lemmas stub_defs = GetState_def PutState_def SetEvent_def empty_stub_def

lemmas date_defs = parse_date_def isDigit_def digit_val_def daysIn_def isLeap_def
  format_yyyymmdd_def zero_pad_def show_nat.simps digit_char_def

lemmas bt_defs = IssueBond_def Transfer_def UpdateBondStatus_def BondExists_def GetBond_def
  GetTokenHolder_def GetBalance_def holderKeyOf_def holders_total_def bond_holders_def

lemmas cp_defs = CreateKYC_def ApproveKYC_def RejectKYC_def CreateAMLCheck_def
  UpdateAMLCheck_def CheckCompliance_def amlFailed_def GetKYC_def GetAMLCheck_def KYCExists_def

lemmas ca_defs = CreateCouponPayment_def ProcessCouponPayment_def CreateRedemption_def
  ProcessRedemption_def GetCouponPayment_def GetRedemption_def

lemmas ex_bt_defs = ex_env_def ex_env2_def ex_issued_def ex_holder_def ex_credited_def
  ex_two_holders_def

lemmas ex_cp_defs = ex_env_def ex_env2_def cp_pending_def cp_approved_def cp_rejected_def
  cp_sanctions_failed_def cp_pep_failed_def cp_adverse_media_failed_def

lemmas ex_ca_defs = ex_env_def ex_env2_def ca_created_def ca_paid_def
  ca_redemption_created_def ca_redeemed_def

lemma GetState_PutState:
  "GetState (PutState k v st) k' = (if k' = k then Some v else GetState st k')"
  by (simp add: GetState_def PutState_def AList.update_conv')

lemma GetState_SetEvent: "GetState (SetEvent n p st) k = GetState st k"
  by (simp add: GetState_def SetEvent_def)

lemma holderKeyOf_inject: "holderKeyOf a b = holderKeyOf a' b \<longleftrightarrow> a = a'"
  by (simp add: holderKeyOf_def)

lemma sint_add_no_overflow:
  fixes a b :: int64
  assumes "0 \<le> sint a" and "0 \<le> sint b" and "sint a + sint b < 2 ^ 63"
  shows "sint (a + b) = sint a + sint b"
proof -
  have "sint (a + b) = signed_take_bit 63 (sint a + sint b)"
    by (simp add: sint_word_ariths)
  also have "\<dots> = sint a + sint b"
    using assms by (intro signed_take_bit_int_eq_self) simp_all
  finally show ?thesis .
qed





section \<open>What a transfer keeps\<close>

text \<open>
  The ledger a successful \<open>Transfer\<close> leaves: the recipient's key holds the credited
  holder, the sender's key (when it is another key) the debited one, and every other key
  is as before.
\<close>

lemma Transfer_success_ledger:
  assumes ok: "fst (Transfer e from to bondID quantity st) = Inr ()"
  shows "\<exists>sender recipient.
      GetTokenHolder st (holderKeyOf from bondID) = Inr sender
    \<and> \<not> holder_Quantity sender <s quantity \<and> \<not> quantity <=s 0
    \<and> recipient = (case GetTokenHolder st (holderKeyOf to bondID) of
          Inl err \<Rightarrow> \<lparr>holder_Address = to, holder_BondID = bondID, holder_Quantity = 0,
                       holder_LastUpdated = now e, holder_Metadata = Some Map.empty\<rparr>
        | Inr h \<Rightarrow> h)
    \<and> (\<forall>k. GetState (snd (Transfer e from to bondID quantity st)) k =
          (if k = holderKeyOf to bondID
           then Some (HolderDoc (recipient\<lparr>holder_Quantity := holder_Quantity recipient + quantity,
                                          holder_LastUpdated := now e\<rparr>))
           else if k = holderKeyOf from bondID
           then Some (HolderDoc (sender\<lparr>holder_Quantity := holder_Quantity sender - quantity,
                                       holder_LastUpdated := now e\<rparr>))
           else GetState st k))"
proof -
  from ok have bond: "BondExists st bondID" and pos: "\<not> quantity <=s 0"
    by (auto simp: Transfer_def split: if_splits)
  from ok bond pos obtain sender where sender: "GetTokenHolder st (holderKeyOf from bondID) = Inr sender"
    by (cases "GetTokenHolder st (holderKeyOf from bondID)") (auto simp: Transfer_def Let_def)
  from ok bond pos sender have enough: "\<not> holder_Quantity sender <s quantity"
    by (auto simp: Transfer_def Let_def split: if_splits)
  show ?thesis
    using bond pos sender enough
    by (simp add: Transfer_def Let_def GetState_SetEvent GetState_PutState)
qed

text \<open>
  Without the wrap-around of the credit, a transfer keeps every stored quantity
  non-negative.
\<close>

lemma Transfer_keeps_nonnegative:
  assumes ok: "fst (Transfer e from to bondID quantity st) = Inr ()"
    and nonneg: "\<And>k d. GetState st k = Some d \<Longrightarrow> 0 \<le> sint (holder_Quantity (unmarshal_TokenHolder d))"
    and fits: "sint (GetBalance st to bondID) + sint quantity < 2 ^ 63"
    and after: "GetState (snd (Transfer e from to bondID quantity st)) k = Some d"
  shows "0 \<le> sint (holder_Quantity (unmarshal_TokenHolder d))"
proof -
  from Transfer_success_ledger [OF ok] obtain sender recipient where
    sender: "GetTokenHolder st (holderKeyOf from bondID) = Inr sender"
    and enough: "\<not> holder_Quantity sender <s quantity"
    and pos: "\<not> quantity <=s 0"
    and recipient: "recipient = (case GetTokenHolder st (holderKeyOf to bondID) of
          Inl err \<Rightarrow> \<lparr>holder_Address = to, holder_BondID = bondID, holder_Quantity = 0,
                       holder_LastUpdated = now e, holder_Metadata = Some Map.empty\<rparr>
        | Inr h \<Rightarrow> h)"
    and ledger: "\<And>k. GetState (snd (Transfer e from to bondID quantity st)) k =
          (if k = holderKeyOf to bondID
           then Some (HolderDoc (recipient\<lparr>holder_Quantity := holder_Quantity recipient + quantity,
                                          holder_LastUpdated := now e\<rparr>))
           else if k = holderKeyOf from bondID
           then Some (HolderDoc (sender\<lparr>holder_Quantity := holder_Quantity sender - quantity,
                                       holder_LastUpdated := now e\<rparr>))
           else GetState st k)"
    by blast
  have q_pos: "0 < sint quantity"
    using pos by (simp add: word_sle_eq)
  have sender_nonneg: "0 \<le> sint (holder_Quantity sender)"
    using sender nonneg by (auto simp: GetTokenHolder_def split: option.splits)
  have recipient_balance: "holder_Quantity recipient = GetBalance st to bondID"
    by (cases "GetTokenHolder st (holderKeyOf to bondID)") (simp_all add: recipient GetBalance_def)
  have recipient_nonneg: "0 \<le> sint (holder_Quantity recipient)"
    using nonneg
    by (cases "GetTokenHolder st (holderKeyOf to bondID)")
       (auto simp: recipient GetTokenHolder_def split: option.splits)
  have credit: "sint (holder_Quantity recipient + quantity)
      = sint (holder_Quantity recipient) + sint quantity"
    using recipient_nonneg q_pos fits
    by (intro sint_add_no_overflow) (simp_all add: recipient_balance)
  have debit: "sint (holder_Quantity sender - quantity)
      = sint (holder_Quantity sender) - sint quantity"
  proof -
    have le: "sint quantity \<le> sint (holder_Quantity sender)"
      using enough by (simp add: word_sless_alt)
    have "sint (holder_Quantity sender - quantity)
        = signed_take_bit 63 (sint (holder_Quantity sender) - sint quantity)"
      by (simp add: sint_word_ariths)
    also have "\<dots> = sint (holder_Quantity sender) - sint quantity"
    proof (rule signed_take_bit_int_eq_self)
      show "- (2 ^ 63) \<le> sint (holder_Quantity sender) - sint quantity"
        using le by simp
      have "sint (holder_Quantity sender) < 2 ^ 63"
        using sint_lt [of "holder_Quantity sender"] by simp
      then show "sint (holder_Quantity sender) - sint quantity < 2 ^ 63"
        using q_pos by simp
    qed
    finally show ?thesis .
  qed
  show ?thesis
  proof (cases "k = holderKeyOf to bondID")
    case True
    with after ledger [of k] credit recipient_nonneg q_pos show ?thesis
      by auto
  next
    case not_to: False
    show ?thesis
    proof (cases "k = holderKeyOf from bondID")
      case True
      with not_to after ledger [of k] debit enough show ?thesis
        by (auto simp: word_sless_alt)
    next
      case False
      with not_to after ledger [of k] nonneg show ?thesis
        by auto
    qed
  qed
qed

lemma holders_total_contributions:
  "holders_total st bondID = (\<Sum>(k, d)\<leftarrow>ledger st. contribution bondID (Some d))"
proof -
  have one: "sum_list (map (\<lambda>h. sint (holder_Quantity h)) (holder_of bondID kd))
      = (case kd of (k, d) \<Rightarrow> contribution bondID (Some d))" for kd
    by (cases kd, cases "snd kd") auto
  have "sum_list (map (\<lambda>h. sint (holder_Quantity h)) (concat (map (holder_of bondID) l)))
      = (\<Sum>(k, d)\<leftarrow>l. contribution bondID (Some d))" for l
    by (induction l) (simp_all add: one)
  then show ?thesis
    by (simp add: holders_total_def bond_holders_def)
qed

lemma contributions_update:
  "(\<Sum>(k', d)\<leftarrow>AList.update k v l. contribution bondID (Some d))
     = (\<Sum>(k', d)\<leftarrow>l. contribution bondID (Some d))
       - contribution bondID (map_of l k) + contribution bondID (Some v)"
  by (induction l) auto

lemma holders_total_PutState:
  "holders_total (PutState k v st) bondID
     = holders_total st bondID - contribution bondID (GetState st k)
       + contribution bondID (Some v)"
  by (simp add: holders_total_contributions PutState_def GetState_def contributions_update)

lemma holders_total_SetEvent: "holders_total (SetEvent n p st) bondID = holders_total st bondID"
  by (simp add: holders_total_def bond_holders_def SetEvent_def)

text \<open>
  A transfer between two different holders of the bond, the recipient being one already or
  having no record yet, keeps the total of the bond, again without the wrap-around.
\<close>

lemma Transfer_conserves_total:
  assumes ok: "fst (Transfer e from to bondID quantity st) = Inr ()"
    and parties: "from \<noteq> to"
    and sender: "GetState st (holderKeyOf from bondID) = Some (HolderDoc s)"
      "holder_BondID s = bondID"
    and recipient: "GetState st (holderKeyOf to bondID) = None
      \<or> (\<exists>r. GetState st (holderKeyOf to bondID) = Some (HolderDoc r) \<and> holder_BondID r = bondID)"
    and nonneg: "0 \<le> sint (GetBalance st to bondID)"
    and fits: "sint (GetBalance st to bondID) + sint quantity < 2 ^ 63"
  shows "holders_total (snd (Transfer e from to bondID quantity st)) bondID
     = holders_total st bondID"
proof -
  let ?sk = "holderKeyOf from bondID" and ?rk = "holderKeyOf to bondID"
  have keys: "?rk \<noteq> ?sk"
    using parties by (simp add: holderKeyOf_inject)
  from ok have bond: "BondExists st bondID" and pos: "\<not> quantity <=s 0"
    by (auto simp: Transfer_def split: if_splits)
  have get_s: "GetTokenHolder st ?sk = Inr s"
    using sender by (simp add: GetTokenHolder_def)
  from ok bond pos get_s have enough: "\<not> holder_Quantity s <s quantity"
    by (auto simp: Transfer_def Let_def split: if_splits)
  define r0 where "r0 = (case GetTokenHolder st ?rk of
      Inl err \<Rightarrow> \<lparr>holder_Address = to, holder_BondID = bondID, holder_Quantity = 0,
                   holder_LastUpdated = now e, holder_Metadata = Some Map.empty\<rparr>
    | Inr h \<Rightarrow> h)"
  let ?s' = "s\<lparr>holder_Quantity := holder_Quantity s - quantity, holder_LastUpdated := now e\<rparr>"
  let ?r' = "r0\<lparr>holder_Quantity := holder_Quantity r0 + quantity, holder_LastUpdated := now e\<rparr>"
  have run: "snd (Transfer e from to bondID quantity st)
      = SetEvent ''TokensTransferred''
          \<lparr>tev_From = from, tev_To = to, tev_BondID = bondID, tev_Quantity = quantity,
           tev_Timestamp = now e, tev_TxID = txID e\<rparr>
          (PutState ?rk (HolderDoc ?r') (PutState ?sk (HolderDoc ?s') st))"
    using bond pos get_s enough by (simp add: Transfer_def Let_def r0_def)
  have r0_bond: "holder_BondID r0 = bondID"
    and r0_old: "contribution bondID (GetState st ?rk) = sint (holder_Quantity r0)"
    and r0_balance: "holder_Quantity r0 = GetBalance st to bondID"
    using recipient by (auto simp: r0_def GetTokenHolder_def GetBalance_def)
  have q_pos: "0 < sint quantity"
    using pos by (simp add: word_sle_eq)
  have credit: "sint (holder_Quantity r0 + quantity) = sint (holder_Quantity r0) + sint quantity"
    using nonneg q_pos fits by (intro sint_add_no_overflow) (simp_all add: r0_balance)
  have debit: "sint (holder_Quantity s - quantity) = sint (holder_Quantity s) - sint quantity"
  proof -
    have "sint (holder_Quantity s - quantity)
        = signed_take_bit 63 (sint (holder_Quantity s) - sint quantity)"
      by (simp add: sint_word_ariths)
    also have "\<dots> = sint (holder_Quantity s) - sint quantity"
    proof (rule signed_take_bit_int_eq_self)
      show "- (2 ^ 63) \<le> sint (holder_Quantity s) - sint quantity"
        using enough by (simp add: word_sless_alt)
      have "sint (holder_Quantity s) < 2 ^ 63"
        using sint_lt [of "holder_Quantity s"] by simp
      then show "sint (holder_Quantity s) - sint quantity < 2 ^ 63"
        using q_pos by simp
    qed
    finally show ?thesis .
  qed
  show ?thesis
    using keys sender r0_bond r0_old credit debit
    by (simp add: run holders_total_SetEvent holders_total_PutState GetState_PutState)
qed

text \<open>A transfer that fails has written nothing and set no event.\<close>

lemma Transfer_failure_writes_nothing:
  "fst (Transfer e from to bondID quantity st) \<noteq> Inr ()
     \<Longrightarrow> snd (Transfer e from to bondID quantity st) = st"
  by (auto simp: Transfer_def Let_def split: if_splits sum.splits)

text \<open>
  The credit \<open>recipientHolder.Quantity += quantity\<close> is an unchecked \<open>int64\<close> addition, so
  the bound on the credited balance in \<open>Transfer_keeps_nonnegative\<close> cannot be dropped: on a
  stub loaded with alice holding 1 and bob holding \<open>2^63 - 1\<close>, the transfer of 1 from alice
  to bob succeeds and leaves bob with \<open>-2^63\<close>. No method of the chaincode writes such a
  ledger: it is a statement about the method, not about a run from the empty ledger.
\<close>

lemma Transfer_credit_wraps:
  "map (\<lambda>h. (holder_Address h, sint (holder_Quantity h))) (bond_holders ex_two_holders ''BOND_001'')
     = [(''alice'', 1), (''bob'', 9223372036854775807)]
   \<and> fst (Transfer ex_env ''alice'' ''bob'' ''BOND_001'' 1 ex_two_holders) = Inr ()
   \<and> map (\<lambda>h. (holder_Address h, sint (holder_Quantity h)))
        (bond_holders (snd (Transfer ex_env ''alice'' ''bob'' ''BOND_001'' 1 ex_two_holders))
           ''BOND_001'')
     = [(''alice'', 0), (''bob'', - 9223372036854775808)]
   \<and> sint (GetBalance (snd (Transfer ex_env ''alice'' ''bob'' ''BOND_001'' 1 ex_two_holders))
        ''bob'' ''BOND_001'') < 0"
  by (simp add: ex_bt_defs bt_defs stub_defs date_defs Let_def word_sle_eq word_sless_alt)

section \<open>What the CorporateAction transactions keep\<close>













section \<open>BondToken: issuance and transfer\<close>

text \<open>
  C1. Balance conservation: for every bond and every sequence of valid \<open>Transfer\<close> calls
  following \<open>IssueBond\<close>, the sum of all \<open>TokenHolder\<close> quantities for that bond equals the
  bond's \<open>totalSupply\<close> before and after every transfer.

  The code does not keep this. \<open>IssueBond\<close> stores the bond and nothing else, so right after
  the issuance of 1000 tokens the holders of the bond total 0. And on a ledger where the
  totals do agree (the issuer holding all 1000), a transfer from the issuer to itself
  succeeds and leaves the holders with 1300 against a supply of 1000.
\<close>

theorem C1_conservation_broken:
  "fst (IssueBond ex_env ''BOND_001'' ''issuer001'' ''ABC Corp'' ''USD''
      ''US0000000001'' ''AA'' ''none'' (Finite 1000) (Finite 5) 1000 ''2029-01-01'' empty_stub)
     = Inr ()
   \<and> map_sum id bond_TotalSupply (GetBond ex_issued ''BOND_001'') = Inr 1000
   \<and> holders_total ex_issued ''BOND_001'' = 0
   \<and> holders_total ex_credited ''BOND_001'' = 1000
   \<and> fst (Transfer ex_env ''issuer001'' ''issuer001'' ''BOND_001'' 300 ex_credited) = Inr ()
   \<and> holders_total
        (snd (Transfer ex_env ''issuer001'' ''issuer001'' ''BOND_001'' 300 ex_credited))
        ''BOND_001'' = 1300
   \<and> map_sum id bond_TotalSupply
        (GetBond (snd (Transfer ex_env ''issuer001'' ''issuer001'' ''BOND_001'' 300 ex_credited))
           ''BOND_001'') = Inr 1000"
  by (simp add: ex_bt_defs bt_defs stub_defs date_defs Let_def word_sle_eq word_sless_alt)

text \<open>
  C2. For every \<open>bondID\<close> not already present, \<open>IssueBond\<close> creates the \<open>Bond\<close> record with
  \<open>availableSupply\<close> equal to \<open>totalSupply\<close> and status \<open>ACTIVE\<close>, and also creates a
  \<open>TokenHolder\<close> record crediting the issuer with \<open>totalSupply\<close>, so that immediately after
  issuance the issuer's balance for that bond equals \<open>totalSupply\<close>.

  The bond record is as claimed, and the event announces 1000 tokens from \<open>SYSTEM\<close> to the
  issuer; but no holder record is written: the ledger holds the bond alone, the issuer's
  holder key is empty and \<open>GetBalance\<close> answers 0.
\<close>

theorem C2_issuer_not_credited:
  "BondExists empty_stub ''BOND_001'' = False
   \<and> map_sum id bond_AvailableSupply (GetBond ex_issued ''BOND_001'') = Inr 1000
   \<and> map_sum id bond_TotalSupply (GetBond ex_issued ''BOND_001'') = Inr 1000
   \<and> map_sum id bond_Status (GetBond ex_issued ''BOND_001'') = Inr ''ACTIVE''
   \<and> map_option (\<lambda>ev. (fst ev, tev_From (snd ev), tev_To (snd ev), tev_Quantity (snd ev)))
        (event ex_issued) = Some (''BondIssued'', ''SYSTEM'', ''issuer001'', 1000)
   \<and> map fst (ledger ex_issued) = [''BOND_001'']
   \<and> GetTokenHolder ex_issued (holderKeyOf ''issuer001'' ''BOND_001'')
        = Inl (HolderDoesNotExist ''issuer001_BOND_001'')
   \<and> GetBalance ex_issued ''issuer001'' ''BOND_001'' = 0"
  by (simp add: ex_bt_defs bt_defs stub_defs date_defs Let_def)

text \<open>
  C3. Self-transfer mints tokens: for every \<open>Transfer\<close> call with \<open>from\<close> equal to \<open>to\<close>, an
  existing bond, and the holder's recorded quantity at least the (positive) transfer
  quantity, the call succeeds and the holder's stored quantity afterwards equals the old
  quantity plus the transfer quantity, because the recipient write to the same key
  overwrites the sender's debited write.

  The sum is the \<open>int64\<close> sum of the Go code; the last conjunct reads it as an integer where
  it does not wrap.
\<close>

theorem C3_self_transfer_mints:
  assumes bond: "BondExists st bondID"
    and holder: "GetTokenHolder st (holderKeyOf a bondID) = Inr h"
    and pos: "0 <s quantity"
    and enough: "quantity <=s holder_Quantity h"
  shows "fst (Transfer e a a bondID quantity st) = Inr ()
     \<and> GetTokenHolder (snd (Transfer e a a bondID quantity st)) (holderKeyOf a bondID)
         = Inr (h\<lparr>holder_Quantity := holder_Quantity h + quantity,
                  holder_LastUpdated := now e\<rparr>)
     \<and> GetBalance (snd (Transfer e a a bondID quantity st)) a bondID
         = holder_Quantity h + quantity
     \<and> (sint (holder_Quantity h) + sint quantity < 2 ^ 63 \<longrightarrow>
          sint (GetBalance (snd (Transfer e a a bondID quantity st)) a bondID)
            = sint (holder_Quantity h) + sint quantity)"
proof -
  let ?key = "holderKeyOf a bondID"
  let ?debited = "h\<lparr>holder_Quantity := holder_Quantity h - quantity, holder_LastUpdated := now e\<rparr>"
  let ?credited = "h\<lparr>holder_Quantity := holder_Quantity h + quantity, holder_LastUpdated := now e\<rparr>"
  let ?ev = "\<lparr>tev_From = a, tev_To = a, tev_BondID = bondID, tev_Quantity = quantity,
     tev_Timestamp = now e, tev_TxID = txID e\<rparr>"
  have not_less: "\<not> holder_Quantity h <s quantity"
    using enough by (simp add: word_sle_eq word_sless_alt)
  have not_le: "\<not> quantity <=s 0"
    using pos by (simp add: word_sle_eq word_sless_alt)
  have run: "Transfer e a a bondID quantity st
      = (Inr (), SetEvent ''TokensTransferred'' ?ev
           (PutState ?key (HolderDoc ?credited) (PutState ?key (HolderDoc ?debited) st)))"
    using bond holder not_less not_le by (simp add: Transfer_def Let_def)
  have stored: "GetTokenHolder (snd (Transfer e a a bondID quantity st)) ?key = Inr ?credited"
    by (simp add: run GetTokenHolder_def GetState_SetEvent GetState_PutState)
  then have balance: "GetBalance (snd (Transfer e a a bondID quantity st)) a bondID
      = holder_Quantity h + quantity"
    by (simp add: GetBalance_def)
  have exact: "sint (holder_Quantity h + quantity) = sint (holder_Quantity h) + sint quantity"
    if "sint (holder_Quantity h) + sint quantity < 2 ^ 63"
  proof (rule sint_add_no_overflow)
    show "0 \<le> sint quantity"
      using pos by (simp add: word_sless_alt)
    then show "0 \<le> sint (holder_Quantity h)"
      using enough by (simp add: word_sle_eq)
    show "sint (holder_Quantity h) + sint quantity < 2 ^ 63"
      by (rule that)
  qed
  show ?thesis
    using stored balance exact by (simp add: run)
qed

theorem C3_self_transfer_mints_witness:
  "BondExists ex_credited ''BOND_001''
   \<and> GetTokenHolder ex_credited (holderKeyOf ''issuer001'' ''BOND_001'')
        = Inr (ex_holder ''issuer001'' 1000)
   \<and> 0 <s (300 :: int64)
   \<and> 300 <=s holder_Quantity (ex_holder ''issuer001'' 1000)
   \<and> fst (Transfer ex_env ''issuer001'' ''issuer001'' ''BOND_001'' 300 ex_credited) = Inr ()
   \<and> GetBalance (snd (Transfer ex_env ''issuer001'' ''issuer001'' ''BOND_001'' 300 ex_credited))
        ''issuer001'' ''BOND_001'' = 1300"
proof -
  have bond: "BondExists ex_credited ''BOND_001''"
    by (simp add: ex_bt_defs bt_defs stub_defs date_defs Let_def)
  have holder: "GetTokenHolder ex_credited (holderKeyOf ''issuer001'' ''BOND_001'')
      = Inr (ex_holder ''issuer001'' 1000)"
    by (simp add: ex_bt_defs bt_defs stub_defs date_defs Let_def)
  have pos: "0 <s (300 :: int64)"
    by (simp add: word_sless_alt)
  have enough: "300 <=s holder_Quantity (ex_holder ''issuer001'' 1000)"
    by (simp add: ex_holder_def word_sle_eq)
  from C3_self_transfer_mints [OF bond holder pos enough, of ex_env]
  show ?thesis
    using bond holder pos enough by (simp add: ex_holder_def)
qed

text \<open>
  C4. For every \<open>Transfer\<close> call on an existing bond with positive quantity where the
  quantity exceeds the sender's recorded balance (a missing sender record counting as
  balance 0) the call fails with \<open>InsufficientBalance\<close>, and no ledger writes occur: all
  holder balances are exactly as before the call.

  As stated this fails for the missing sender record: right after the issuance the issuer
  has no holder record, its balance reads 0, and a transfer of 300 fails with
  \<open>failed to get sender holder: holder issuer001_BOND_001 does not exist\<close>, a not-found
  error and not an insufficient balance.
\<close>

theorem C4_missing_sender_counterexample:
  "BondExists ex_issued ''BOND_001''
   \<and> 0 <s (300 :: int64)
   \<and> GetBalance ex_issued ''issuer001'' ''BOND_001'' = 0
   \<and> GetBalance ex_issued ''issuer001'' ''BOND_001'' <s 300
   \<and> Transfer ex_env ''issuer001'' ''investor001'' ''BOND_001'' 300 ex_issued
        = (Inl (FailedToGetSenderHolder (HolderDoesNotExist ''issuer001_BOND_001'')), ex_issued)
   \<and> kind_of (FailedToGetSenderHolder (HolderDoesNotExist ''issuer001_BOND_001'')) = NotFound
   \<and> kind_of (FailedToGetSenderHolder (HolderDoesNotExist ''issuer001_BOND_001''))
        \<noteq> InsufficientBalance"
  by (simp add: ex_bt_defs bt_defs stub_defs date_defs Let_def word_sle_eq word_sless_alt)

text \<open>
  C4, amended. On an existing bond and with a positive quantity: when the sender's holder
  record exists and its quantity is below the transfer quantity, \<open>Transfer\<close> fails with
  \<open>insufficient balance\<close>; when the sender has no holder record, it fails with
  \<open>failed to get sender holder\<close> (a not-found error). In both cases the stub is returned as
  it was: no write and no event, so every balance is as before.
\<close>

theorem C4_overdraw_rejected_without_writes:
  assumes bond: "BondExists st bondID" and pos: "0 <s quantity"
  shows "(GetTokenHolder st (holderKeyOf from bondID) = Inr h
            \<and> holder_Quantity h <s quantity \<longrightarrow>
          Transfer e from to bondID quantity st
            = (Inl (InsufficientBalanceMsg (holder_Quantity h) quantity), st)
          \<and> kind_of (InsufficientBalanceMsg (holder_Quantity h) quantity) = InsufficientBalance)
       \<and> (GetState st (holderKeyOf from bondID) = None \<longrightarrow>
          Transfer e from to bondID quantity st
            = (Inl (FailedToGetSenderHolder (HolderDoesNotExist (holderKeyOf from bondID))), st)
          \<and> kind_of (FailedToGetSenderHolder (HolderDoesNotExist (holderKeyOf from bondID)))
              = NotFound)"
proof (intro conjI impI)
  have not_le: "\<not> quantity <=s 0"
    using pos by (simp add: word_sle_eq word_sless_alt)
  {
    assume "GetTokenHolder st (holderKeyOf from bondID) = Inr h \<and> holder_Quantity h <s quantity"
    then show "Transfer e from to bondID quantity st
        = (Inl (InsufficientBalanceMsg (holder_Quantity h) quantity), st)"
      using bond not_le by (simp add: Transfer_def Let_def)
  }
  {
    assume "GetState st (holderKeyOf from bondID) = None"
    then have "GetTokenHolder st (holderKeyOf from bondID)
        = Inl (HolderDoesNotExist (holderKeyOf from bondID))"
      by (simp add: GetTokenHolder_def)
    then show "Transfer e from to bondID quantity st
        = (Inl (FailedToGetSenderHolder (HolderDoesNotExist (holderKeyOf from bondID))), st)"
      using bond not_le by (simp add: Transfer_def Let_def)
  }
qed simp_all

theorem C4_overdraw_rejected_without_writes_witness:
  "BondExists ex_two_holders ''BOND_001''
   \<and> 0 <s (5 :: int64)
   \<and> GetTokenHolder ex_two_holders (holderKeyOf ''alice'' ''BOND_001'')
        = Inr (ex_holder ''alice'' 1)
   \<and> holder_Quantity (ex_holder ''alice'' 1) <s 5
   \<and> Transfer ex_env ''alice'' ''bob'' ''BOND_001'' 5 ex_two_holders
        = (Inl (InsufficientBalanceMsg 1 5), ex_two_holders)
   \<and> GetState ex_two_holders (holderKeyOf ''carol'' ''BOND_001'') = None
   \<and> Transfer ex_env ''carol'' ''bob'' ''BOND_001'' 5 ex_two_holders
        = (Inl (FailedToGetSenderHolder (HolderDoesNotExist ''carol_BOND_001'')), ex_two_holders)"
proof -
  have bond: "BondExists ex_two_holders ''BOND_001''"
    by (simp add: ex_bt_defs bt_defs stub_defs date_defs Let_def)
  have pos: "0 <s (5 :: int64)"
    by (simp add: word_sless_alt)
  have alice: "GetTokenHolder ex_two_holders (holderKeyOf ''alice'' ''BOND_001'')
      = Inr (ex_holder ''alice'' 1)"
    by (simp add: ex_bt_defs bt_defs stub_defs date_defs Let_def)
  have short: "holder_Quantity (ex_holder ''alice'' 1) <s 5"
    by (simp add: ex_holder_def word_sless_alt)
  have carol: "GetState ex_two_holders (holderKeyOf ''carol'' ''BOND_001'') = None"
    by (simp add: ex_bt_defs bt_defs stub_defs date_defs Let_def)
  from C4_overdraw_rejected_without_writes [OF bond pos,
      of "''alice''" "ex_holder ''alice'' 1" ex_env "''bob''"]
  have first: "Transfer ex_env ''alice'' ''bob'' ''BOND_001'' 5 ex_two_holders
      = (Inl (InsufficientBalanceMsg 1 5), ex_two_holders)"
    using alice short by (simp add: ex_holder_def)
  from C4_overdraw_rejected_without_writes [OF bond pos,
      of "''carol''" "ex_holder ''alice'' 1" ex_env "''bob''"]
  have second: "Transfer ex_env ''carol'' ''bob'' ''BOND_001'' 5 ex_two_holders
      = (Inl (FailedToGetSenderHolder (HolderDoesNotExist ''carol_BOND_001'')), ex_two_holders)"
    using carol by (simp add: holderKeyOf_def)
  show ?thesis
    using bond pos alice short carol first second by simp
qed

text \<open>
  C9. No negative balances: starting from any state in which every \<open>TokenHolder\<close> quantity is
  non-negative, no \<open>Transfer\<close> call ever leaves any holder with quantity strictly less than 0;
  an attempted overdraw returns \<open>InsufficientBalance\<close> with all balances unchanged.

  The second sentence fails on the ledger the issuance leaves. It holds no holder record,
  so no quantity is negative and the issuer's balance reads 0; the attempt to transfer 1
  token from the issuer leaves every balance unchanged, but the error is
  \<open>failed to get sender holder: holder issuer001_BOND_001 does not exist\<close>, a not-found error
  and not an insufficient balance.
\<close>

theorem C9_overdraw_counterexample:
  "bond_holders ex_issued ''BOND_001'' = []
   \<and> BondExists ex_issued ''BOND_001''
   \<and> GetBalance ex_issued ''issuer001'' ''BOND_001'' = 0
   \<and> sint (GetBalance ex_issued ''issuer001'' ''BOND_001'') < sint (1 :: int64)
   \<and> Transfer ex_env2 ''issuer001'' ''investor002'' ''BOND_001'' 1 ex_issued
        = (Inl (FailedToGetSenderHolder (HolderDoesNotExist ''issuer001_BOND_001'')), ex_issued)
   \<and> kind_of (FailedToGetSenderHolder (HolderDoesNotExist ''issuer001_BOND_001''))
        \<noteq> InsufficientBalance"
  by (simp add: ex_bt_defs bt_defs stub_defs date_defs Let_def word_sle_eq word_sless_alt)

text \<open>
  C9, amended. Starting from any state in which every stored quantity is non-negative, a
  successful \<open>Transfer\<close> whose credited balance stays within \<open>int64\<close> (the recipient's balance
  plus the quantity is below \<open>2^63\<close>) leaves every stored quantity non-negative. An attempted
  overdraw, on an existing bond and with a positive quantity, returns \<open>InsufficientBalance\<close>
  when the sender has a holder record and the not-found error \<open>failed to get sender holder\<close>
  when it has none; and every \<open>Transfer\<close> that fails returns the stub as it was, so all
  balances are unchanged.
\<close>

theorem C9_no_negative_balance:
  assumes nonneg: "\<forall>k d. GetState st k = Some d \<longrightarrow>
      0 \<le> sint (holder_Quantity (unmarshal_TokenHolder d))"
  shows "(fst (Transfer e from to bondID quantity st) = Inr ()
            \<and> sint (GetBalance st to bondID) + sint quantity < 2 ^ 63 \<longrightarrow>
          (\<forall>k d. GetState (snd (Transfer e from to bondID quantity st)) k = Some d \<longrightarrow>
             0 \<le> sint (holder_Quantity (unmarshal_TokenHolder d))))
       \<and> (BondExists st bondID \<and> 0 <s quantity
            \<and> GetTokenHolder st (holderKeyOf from bondID) = Inr h
            \<and> holder_Quantity h <s quantity \<longrightarrow>
          Transfer e from to bondID quantity st
            = (Inl (InsufficientBalanceMsg (holder_Quantity h) quantity), st)
          \<and> kind_of (InsufficientBalanceMsg (holder_Quantity h) quantity) = InsufficientBalance)
       \<and> (BondExists st bondID \<and> 0 <s quantity
            \<and> GetState st (holderKeyOf from bondID) = None \<longrightarrow>
          Transfer e from to bondID quantity st
            = (Inl (FailedToGetSenderHolder (HolderDoesNotExist (holderKeyOf from bondID))), st)
          \<and> kind_of (FailedToGetSenderHolder (HolderDoesNotExist (holderKeyOf from bondID)))
              = NotFound)
       \<and> (fst (Transfer e from to bondID quantity st) \<noteq> Inr () \<longrightarrow>
          snd (Transfer e from to bondID quantity st) = st)"
proof (intro conjI impI allI)
  fix k d
  assume run: "fst (Transfer e from to bondID quantity st) = Inr ()
      \<and> sint (GetBalance st to bondID) + sint quantity < 2 ^ 63"
    and stored: "GetState (snd (Transfer e from to bondID quantity st)) k = Some d"
  show "0 \<le> sint (holder_Quantity (unmarshal_TokenHolder d))"
  proof (rule Transfer_keeps_nonnegative)
    show "fst (Transfer e from to bondID quantity st) = Inr ()"
      using run by simp
    show "sint (GetBalance st to bondID) + sint quantity < 2 ^ 63"
      using run by simp
    show "GetState (snd (Transfer e from to bondID quantity st)) k = Some d"
      by (rule stored)
    show "0 \<le> sint (holder_Quantity (unmarshal_TokenHolder d'))"
      if "GetState st k' = Some d'" for k' d'
      using nonneg that by blast
  qed
next
  assume "BondExists st bondID \<and> 0 <s quantity
      \<and> GetTokenHolder st (holderKeyOf from bondID) = Inr h \<and> holder_Quantity h <s quantity"
  then show "Transfer e from to bondID quantity st
      = (Inl (InsufficientBalanceMsg (holder_Quantity h) quantity), st)"
    by (simp add: Transfer_def Let_def word_sle_eq word_sless_alt)
next
  assume "BondExists st bondID \<and> 0 <s quantity \<and> GetState st (holderKeyOf from bondID) = None"
  then show "Transfer e from to bondID quantity st
      = (Inl (FailedToGetSenderHolder (HolderDoesNotExist (holderKeyOf from bondID))), st)"
    by (simp add: Transfer_def Let_def GetTokenHolder_def word_sle_eq word_sless_alt)
next
  assume "fst (Transfer e from to bondID quantity st) \<noteq> Inr ()"
  then show "snd (Transfer e from to bondID quantity st) = st"
    by (rule Transfer_failure_writes_nothing)
qed simp_all

theorem C9_no_negative_balance_witness:
  "map (\<lambda>(k, d). sint (holder_Quantity (unmarshal_TokenHolder d))) (ledger ex_credited)
     = [0, 1000]
   \<and> fst (Transfer ex_env ''issuer001'' ''investor001'' ''BOND_001'' 300 ex_credited) = Inr ()
   \<and> sint (GetBalance ex_credited ''investor001'' ''BOND_001'') + sint (300 :: int64) < 2 ^ 63
   \<and> map (\<lambda>(k, d). sint (holder_Quantity (unmarshal_TokenHolder d)))
        (ledger (snd (Transfer ex_env ''issuer001'' ''investor001'' ''BOND_001'' 300 ex_credited)))
     = [0, 700, 300]
   \<and> 0 \<le> sint (GetBalance
        (snd (Transfer ex_env ''issuer001'' ''investor001'' ''BOND_001'' 300 ex_credited))
        ''investor001'' ''BOND_001'')
   \<and> GetTokenHolder ex_credited (holderKeyOf ''issuer001'' ''BOND_001'')
        = Inr (ex_holder ''issuer001'' 1000)
   \<and> holder_Quantity (ex_holder ''issuer001'' 1000) <s 1001
   \<and> Transfer ex_env ''issuer001'' ''investor001'' ''BOND_001'' 1001 ex_credited
        = (Inl (InsufficientBalanceMsg 1000 1001), ex_credited)
   \<and> GetState ex_credited (holderKeyOf ''investor001'' ''BOND_001'') = None
   \<and> Transfer ex_env ''investor001'' ''issuer001'' ''BOND_001'' 1 ex_credited
        = (Inl (FailedToGetSenderHolder (HolderDoesNotExist ''investor001_BOND_001'')), ex_credited)"
proof -
  note defs = ex_bt_defs bt_defs stub_defs date_defs Let_def word_sle_eq word_sless_alt
  let ?ok = "Transfer ex_env ''issuer001'' ''investor001'' ''BOND_001'' 300 ex_credited"
  have before: "map (\<lambda>(k, d). sint (holder_Quantity (unmarshal_TokenHolder d))) (ledger ex_credited)
      = [0, 1000]"
    by (simp add: defs zero_TokenHolder_def)
  have nonneg: "\<forall>k d. GetState ex_credited k = Some d \<longrightarrow>
      0 \<le> sint (holder_Quantity (unmarshal_TokenHolder d))"
    by (auto simp: defs zero_TokenHolder_def split: if_splits)
  have ok: "fst ?ok = Inr ()"
    by (simp add: defs)
  have fits: "sint (GetBalance ex_credited ''investor001'' ''BOND_001'') + sint (300 :: int64) < 2 ^ 63"
    by (simp add: defs)
  have after: "map (\<lambda>(k, d). sint (holder_Quantity (unmarshal_TokenHolder d))) (ledger (snd ?ok))
      = [0, 700, 300]"
    by (simp add: defs zero_TokenHolder_def)
  obtain d where stored: "GetState (snd ?ok) ''investor001_BOND_001'' = Some d"
    and balance: "GetBalance (snd ?ok) ''investor001'' ''BOND_001''
      = holder_Quantity (unmarshal_TokenHolder d)"
    by (simp add: defs)
  have bond: "BondExists ex_credited ''BOND_001''"
    by (simp add: defs)
  have sender: "GetTokenHolder ex_credited (holderKeyOf ''issuer001'' ''BOND_001'')
      = Inr (ex_holder ''issuer001'' 1000)"
    by (simp add: defs)
  have short: "holder_Quantity (ex_holder ''issuer001'' 1000) <s 1001"
    by (simp add: ex_holder_def word_sless_alt)
  have absent: "GetState ex_credited (holderKeyOf ''investor001'' ''BOND_001'') = None"
    by (simp add: defs)
  have pos: "0 <s (1001 :: int64)" "0 <s (1 :: int64)"
    by (simp_all add: word_sless_alt)
  note kept = C9_no_negative_balance [OF nonneg, of ex_env "''issuer001''" "''investor001''"
      "''BOND_001''" 300]
  note overdraw = C9_no_negative_balance [OF nonneg, of ex_env "''issuer001''" "''investor001''"
      "''BOND_001''" 1001 "ex_holder ''issuer001'' 1000"]
  note unknown = C9_no_negative_balance [OF nonneg, of ex_env "''investor001''" "''issuer001''"
      "''BOND_001''" 1]
  from kept ok fits stored have "0 \<le> sint (holder_Quantity (unmarshal_TokenHolder d))"
    by blast
  then have r0: "0 \<le> sint (GetBalance (snd ?ok) ''investor001'' ''BOND_001'')"
    by (simp add: balance)
  have r1: "Transfer ex_env ''issuer001'' ''investor001'' ''BOND_001'' 1001 ex_credited
      = (Inl (InsufficientBalanceMsg 1000 1001), ex_credited)"
    using overdraw bond pos sender short by (simp add: ex_holder_def)
  have r2: "Transfer ex_env ''investor001'' ''issuer001'' ''BOND_001'' 1 ex_credited
      = (Inl (FailedToGetSenderHolder (HolderDoesNotExist ''investor001_BOND_001'')), ex_credited)"
    using unknown bond pos absent by (simp add: holderKeyOf_def)
  show ?thesis
    using before ok fits after r0 sender short r1 absent r2 by simp
qed

section \<open>Compliance: the gate and the KYC status\<close>

text \<open>
  C5. \<open>CheckCompliance(address)\<close> is a read-only predicate returning exactly:
  \<open>(false, "KYC record not found")\<close> when no KYC record exists for the address;
  \<open>(false, "KYC status: <status>")\<close> when the KYC status is not \<open>APPROVED\<close>;
  \<open>(false, "Sanctions check failed")\<close> when KYC is \<open>APPROVED\<close> and the \<open>SANCTIONS\<close> AML check
  exists with status \<open>FAILED\<close>; \<open>(false, "PEP check failed")\<close> analogously for \<open>PEP\<close>; and
  \<open>(true, "Compliant")\<close> otherwise, consulting no AML check types other than \<open>SANCTIONS\<close> and
  \<open>PEP\<close>, and blocked only by status \<open>FAILED\<close>.

  The five cases in the order the code takes them, and the frame: the answer is the same
  on any two ledgers that agree on the three keys \<open>address\<close>, \<open>address_SANCTIONS\<close> and
  \<open>address_PEP\<close>. The method is given the stub and returns none, so it writes nothing.
\<close>

theorem C5_CheckCompliance_cases:
  "(GetState st a = None \<longrightarrow> CheckCompliance st a = (False, ''KYC record not found''))
 \<and> (GetKYC st a = Inr k \<and> kyc_Status k \<noteq> ''APPROVED'' \<longrightarrow>
      CheckCompliance st a = (False, ''KYC status: '' @ kyc_Status k))
 \<and> (GetKYC st a = Inr k \<and> kyc_Status k = ''APPROVED''
      \<and> GetAMLCheck st (a @ ''_SANCTIONS'') = Inr c \<and> aml_Status c = ''FAILED'' \<longrightarrow>
      CheckCompliance st a = (False, ''Sanctions check failed''))
 \<and> (GetKYC st a = Inr k \<and> kyc_Status k = ''APPROVED''
      \<and> \<not> (\<exists>c. GetAMLCheck st (a @ ''_SANCTIONS'') = Inr c \<and> aml_Status c = ''FAILED'')
      \<and> GetAMLCheck st (a @ ''_PEP'') = Inr p \<and> aml_Status p = ''FAILED'' \<longrightarrow>
      CheckCompliance st a = (False, ''PEP check failed''))
 \<and> (GetKYC st a = Inr k \<and> kyc_Status k = ''APPROVED''
      \<and> \<not> (\<exists>c. GetAMLCheck st (a @ ''_SANCTIONS'') = Inr c \<and> aml_Status c = ''FAILED'')
      \<and> \<not> (\<exists>c. GetAMLCheck st (a @ ''_PEP'') = Inr c \<and> aml_Status c = ''FAILED'') \<longrightarrow>
      CheckCompliance st a = (True, ''Compliant''))
 \<and> (GetState st' a = GetState st a
      \<and> GetState st' (a @ ''_SANCTIONS'') = GetState st (a @ ''_SANCTIONS'')
      \<and> GetState st' (a @ ''_PEP'') = GetState st (a @ ''_PEP'') \<longrightarrow>
      CheckCompliance st' a = CheckCompliance st a)"
proof -
  have failed_iff: "amlFailed s key \<longleftrightarrow> (\<exists>c. GetAMLCheck s key = Inr c \<and> aml_Status c = ''FAILED'')"
    for s :: cp_stub and key
    by (cases "GetAMLCheck s key") (simp_all add: amlFailed_def)
  have missing: "CheckCompliance st a = (False, ''KYC record not found'')"
    if "GetState st a = None"
    using that by (simp add: CheckCompliance_def GetKYC_def)
  have status: "CheckCompliance st a = (False, ''KYC status: '' @ kyc_Status k)"
    if "GetKYC st a = Inr k" "kyc_Status k \<noteq> ''APPROVED''"
    using that by (simp add: CheckCompliance_def)
  have gate: "CheckCompliance st a =
      (if amlFailed st (a @ ''_SANCTIONS'') then (False, ''Sanctions check failed'')
       else if amlFailed st (a @ ''_PEP'') then (False, ''PEP check failed'')
       else (True, ''Compliant''))"
    if "GetKYC st a = Inr k" "kyc_Status k = ''APPROVED''"
    using that by (simp add: CheckCompliance_def Let_def)
  have frame: "CheckCompliance st' a = CheckCompliance st a"
    if "GetState st' a = GetState st a"
      "GetState st' (a @ ''_SANCTIONS'') = GetState st (a @ ''_SANCTIONS'')"
      "GetState st' (a @ ''_PEP'') = GetState st (a @ ''_PEP'')"
  proof -
    have "amlFailed st' (a @ ''_SANCTIONS'') = amlFailed st (a @ ''_SANCTIONS'')"
      and "amlFailed st' (a @ ''_PEP'') = amlFailed st (a @ ''_PEP'')"
      using that by (simp_all add: amlFailed_def GetAMLCheck_def)
    then show ?thesis
      using that(1) by (simp add: CheckCompliance_def GetKYC_def Let_def split: option.splits)
  qed
  show ?thesis
    using missing status frame by (auto simp: gate failed_iff)
qed

theorem C5_CheckCompliance_cases_witness:
  "GetState empty_stub ''alice'' = (None :: cp_doc option)
   \<and> CheckCompliance empty_stub ''alice'' = (False, ''KYC record not found'')
   \<and> map_sum id kyc_Status (GetKYC cp_pending ''alice'') = Inr ''PENDING''
   \<and> CheckCompliance cp_pending ''alice'' = (False, ''KYC status: PENDING'')
   \<and> map_sum id kyc_Status (GetKYC cp_approved ''alice'') = Inr ''APPROVED''
   \<and> GetState cp_approved ''alice_SANCTIONS'' = None
   \<and> GetState cp_approved ''alice_PEP'' = None
   \<and> CheckCompliance cp_approved ''alice'' = (True, ''Compliant'')
   \<and> map_sum id aml_Status (GetAMLCheck cp_sanctions_failed ''alice_SANCTIONS'') = Inr ''FAILED''
   \<and> CheckCompliance cp_sanctions_failed ''alice'' = (False, ''Sanctions check failed'')
   \<and> map_sum id aml_Status (GetAMLCheck cp_pep_failed ''alice_PEP'') = Inr ''FAILED''
   \<and> CheckCompliance cp_pep_failed ''alice'' = (False, ''PEP check failed'')
   \<and> map_sum id aml_Status (GetAMLCheck cp_adverse_media_failed ''alice_ADVERSE_MEDIA'')
       = Inr ''FAILED''
   \<and> CheckCompliance cp_adverse_media_failed ''alice'' = (True, ''Compliant'')"
proof -
  note defs = ex_cp_defs cp_defs stub_defs Let_def AList.update_conv'
  obtain k0 where k0: "GetKYC cp_pending ''alice'' = Inr k0" "kyc_Status k0 = ''PENDING''"
    by (simp add: defs)
  obtain k1 where k1: "GetKYC cp_approved ''alice'' = Inr k1" "kyc_Status k1 = ''APPROVED''"
    by (simp add: defs)
  obtain k2 where k2: "GetKYC cp_sanctions_failed ''alice'' = Inr k2" "kyc_Status k2 = ''APPROVED''"
    by (simp add: defs)
  obtain k3 where k3: "GetKYC cp_pep_failed ''alice'' = Inr k3" "kyc_Status k3 = ''APPROVED''"
    by (simp add: defs)
  obtain c2 where c2: "GetAMLCheck cp_sanctions_failed ''alice_SANCTIONS'' = Inr c2"
      "aml_Status c2 = ''FAILED''"
    by (simp add: defs)
  obtain p3 where p3: "GetAMLCheck cp_pep_failed ''alice_PEP'' = Inr p3"
      "aml_Status p3 = ''FAILED''"
    by (simp add: defs)
  obtain m4 where m4: "GetAMLCheck cp_adverse_media_failed ''alice_ADVERSE_MEDIA'' = Inr m4"
      "aml_Status m4 = ''FAILED''"
    by (simp add: defs)
  have none1: "GetState cp_approved ''alice_SANCTIONS'' = None"
      "GetState cp_approved ''alice_PEP'' = None"
      "GetState cp_pep_failed ''alice_SANCTIONS'' = None"
    by (simp_all add: defs)
  have same: "GetState cp_adverse_media_failed ''alice'' = GetState cp_approved ''alice''"
      "GetState cp_adverse_media_failed ''alice_SANCTIONS'' = GetState cp_approved ''alice_SANCTIONS''"
      "GetState cp_adverse_media_failed ''alice_PEP'' = GetState cp_approved ''alice_PEP''"
    by (simp_all add: defs)
  have e0: "GetState empty_stub ''alice'' = (None :: cp_doc option)"
    by (simp add: stub_defs)
  have r0: "CheckCompliance empty_stub ''alice'' = (False, ''KYC record not found'')"
    using C5_CheckCompliance_cases [of empty_stub "''alice''"] e0 by blast
  have r1: "CheckCompliance cp_pending ''alice'' = (False, ''KYC status: PENDING'')"
    using C5_CheckCompliance_cases [of cp_pending "''alice''" k0] k0 by simp
  have r2: "CheckCompliance cp_approved ''alice'' = (True, ''Compliant'')"
    using C5_CheckCompliance_cases [of cp_approved "''alice''" k1] k1 none1
    by (simp add: GetAMLCheck_def)
  have r3: "CheckCompliance cp_sanctions_failed ''alice'' = (False, ''Sanctions check failed'')"
    using C5_CheckCompliance_cases [of cp_sanctions_failed "''alice''" k2 c2] k2 c2 by simp
  have r4: "CheckCompliance cp_pep_failed ''alice'' = (False, ''PEP check failed'')"
    using C5_CheckCompliance_cases [of cp_pep_failed "''alice''" k3 _ p3] k3 p3 none1
    by (simp add: GetAMLCheck_def)
  have "CheckCompliance cp_adverse_media_failed ''alice'' = CheckCompliance cp_approved ''alice''"
    using C5_CheckCompliance_cases [of cp_approved "''alice''" _ _ _ cp_adverse_media_failed] same
    by simp
  then have r5: "CheckCompliance cp_adverse_media_failed ''alice'' = (True, ''Compliant'')"
    by (simp add: r2)
  show ?thesis
    using e0 r0 r1 r2 r3 r4 r5 k0 k1 c2 p3 m4 none1 by simp
qed

text \<open>
  C8. KYC status state machine: for every address with a KYC record, the only status
  transitions realizable by \<open>ApproveKYC\<close> and \<open>RejectKYC\<close> are \<open>PENDING\<close> to \<open>APPROVED\<close> and
  \<open>PENDING\<close> to \<open>REJECTED\<close>, and both \<open>APPROVED\<close> and \<open>REJECTED\<close> are terminal: no sequence of
  operations moves a record out of \<open>APPROVED\<close> or \<open>REJECTED\<close>.

  Neither method reads the status it overwrites. A rejected record is approved by
  \<open>ApproveKYC\<close>, and an approved one is rejected by \<open>RejectKYC\<close>.
\<close>

theorem C8_terminal_states_counterexample:
  "map_sum id kyc_Status (GetKYC cp_rejected ''alice'') = Inr ''REJECTED''
   \<and> fst (ApproveKYC ex_env2 ''alice'' ''admin'' ''LOW'' cp_rejected) = Inr ()
   \<and> map_sum id kyc_Status
        (GetKYC (snd (ApproveKYC ex_env2 ''alice'' ''admin'' ''LOW'' cp_rejected)) ''alice'')
       = Inr ''APPROVED''
   \<and> map_sum id kyc_Status (GetKYC cp_approved ''alice'') = Inr ''APPROVED''
   \<and> fst (RejectKYC ex_env2 ''alice'' ''admin'' ''late finding'' cp_approved) = Inr ()
   \<and> map_sum id kyc_Status
        (GetKYC (snd (RejectKYC ex_env2 ''alice'' ''admin'' ''late finding'' cp_approved)) ''alice'')
       = Inr ''REJECTED''"
  by (simp add: ex_cp_defs cp_defs stub_defs Let_def AList.update_conv')

text \<open>
  C8, amended. For every address with a KYC record, \<open>ApproveKYC\<close> succeeds and leaves the
  status \<open>APPROVED\<close> whatever it was, and \<open>RejectKYC\<close> succeeds and leaves it \<open>REJECTED\<close>
  whatever it was (the record having a metadata map, as every record of \<open>CreateKYC\<close> has).
  So the transitions of the two methods are from any status to \<open>APPROVED\<close> and from any
  status to \<open>REJECTED\<close>; neither status is terminal, and neither method leaves a record
  \<open>PENDING\<close>. Without a record both fail with a not-found error and an unchanged stub, and
  neither touches another key.
\<close>

theorem C8_approve_reject_overwrite:
  "(GetKYC st a = Inr k \<longrightarrow>
      fst (ApproveKYC e a approvedBy riskLevel st) = Inr ()
      \<and> GetKYC (snd (ApproveKYC e a approvedBy riskLevel st)) a
          = Inr (k\<lparr>kyc_Status := ''APPROVED'', kyc_RiskLevel := riskLevel,
                   kyc_ApprovedBy := approvedBy, kyc_ApprovedAt := now e,
                   kyc_UpdatedAt := now e\<rparr>))
 \<and> (GetKYC st a = Inr k \<and> kyc_Metadata k = Some md \<longrightarrow>
      fst (RejectKYC e a rejectedBy reason st) = Inr ()
      \<and> GetKYC (snd (RejectKYC e a rejectedBy reason st)) a
          = Inr (k\<lparr>kyc_Status := ''REJECTED'', kyc_UpdatedAt := now e,
                   kyc_Metadata := Some (md(''rejection_reason'' \<mapsto> reason,
                                            ''rejected_by'' \<mapsto> rejectedBy))\<rparr>))
 \<and> (GetState st a = None \<longrightarrow>
      ApproveKYC e a approvedBy riskLevel st = (Inl (FailedToGetKYC (KYCDoesNotExist a)), st)
      \<and> RejectKYC e a rejectedBy reason st = (Inl (FailedToGetKYC (KYCDoesNotExist a)), st))
 \<and> (a' \<noteq> a \<longrightarrow>
      GetState (snd (ApproveKYC e a approvedBy riskLevel st)) a' = GetState st a'
      \<and> GetState (snd (RejectKYC e a rejectedBy reason st)) a' = GetState st a')"
proof (intro conjI impI)
  assume "GetKYC st a = Inr k"
  then show "fst (ApproveKYC e a approvedBy riskLevel st) = Inr ()"
    and "GetKYC (snd (ApproveKYC e a approvedBy riskLevel st)) a
          = Inr (k\<lparr>kyc_Status := ''APPROVED'', kyc_RiskLevel := riskLevel,
                   kyc_ApprovedBy := approvedBy, kyc_ApprovedAt := now e,
                   kyc_UpdatedAt := now e\<rparr>)"
    by (simp_all add: ApproveKYC_def Let_def GetKYC_def GetState_SetEvent GetState_PutState)
next
  assume "GetKYC st a = Inr k \<and> kyc_Metadata k = Some md"
  then show "fst (RejectKYC e a rejectedBy reason st) = Inr ()"
    and "GetKYC (snd (RejectKYC e a rejectedBy reason st)) a
          = Inr (k\<lparr>kyc_Status := ''REJECTED'', kyc_UpdatedAt := now e,
                   kyc_Metadata := Some (md(''rejection_reason'' \<mapsto> reason,
                                            ''rejected_by'' \<mapsto> rejectedBy))\<rparr>)"
    by (simp_all add: RejectKYC_def Let_def GetKYC_def GetState_SetEvent GetState_PutState)
next
  assume "GetState st a = None"
  then show "ApproveKYC e a approvedBy riskLevel st = (Inl (FailedToGetKYC (KYCDoesNotExist a)), st)"
    and "RejectKYC e a rejectedBy reason st = (Inl (FailedToGetKYC (KYCDoesNotExist a)), st)"
    by (simp_all add: ApproveKYC_def RejectKYC_def GetKYC_def)
next
  assume "a' \<noteq> a"
  then show "GetState (snd (ApproveKYC e a approvedBy riskLevel st)) a' = GetState st a'"
    and "GetState (snd (RejectKYC e a rejectedBy reason st)) a' = GetState st a'"
    by (auto simp: ApproveKYC_def RejectKYC_def Let_def GetState_SetEvent GetState_PutState
          split: sum.splits option.splits)
qed

theorem C8_approve_reject_overwrite_witness:
  "map_sum id kyc_Status (GetKYC cp_pending ''alice'') = Inr ''PENDING''
   \<and> map_sum id kyc_Status
        (GetKYC (snd (ApproveKYC ex_env2 ''alice'' ''admin'' ''LOW'' cp_pending)) ''alice'')
       = Inr ''APPROVED''
   \<and> map_sum id kyc_Status
        (GetKYC (snd (RejectKYC ex_env2 ''alice'' ''admin'' ''late finding'' cp_approved)) ''alice'')
       = Inr ''REJECTED''
   \<and> GetState cp_pending ''bob'' = None
   \<and> ApproveKYC ex_env2 ''bob'' ''admin'' ''LOW'' cp_pending
       = (Inl (FailedToGetKYC (KYCDoesNotExist ''bob'')), cp_pending)
   \<and> ''alice'' \<noteq> ''bob''
   \<and> GetState (snd (ApproveKYC ex_env2 ''bob'' ''admin'' ''LOW'' cp_approved)) ''alice''
       = GetState cp_approved ''alice''"
proof -
  note defs = ex_cp_defs cp_defs stub_defs Let_def AList.update_conv'
  obtain k0 where k0: "GetKYC cp_pending ''alice'' = Inr k0" "kyc_Status k0 = ''PENDING''"
    by (simp add: defs)
  obtain k1 md where k1: "GetKYC cp_approved ''alice'' = Inr k1" "kyc_Metadata k1 = Some md"
    by (simp add: defs)
  have bob: "GetState cp_pending ''bob'' = None"
    by (simp add: defs)
  have r0: "map_sum id kyc_Status
      (GetKYC (snd (ApproveKYC ex_env2 ''alice'' ''admin'' ''LOW'' cp_pending)) ''alice'')
      = Inr ''APPROVED''"
    using C8_approve_reject_overwrite [of cp_pending "''alice''" k0 ex_env2 "''admin''" "''LOW''"] k0
    by simp
  have r1: "map_sum id kyc_Status
      (GetKYC (snd (RejectKYC ex_env2 ''alice'' ''admin'' ''late finding'' cp_approved)) ''alice'')
      = Inr ''REJECTED''"
    using C8_approve_reject_overwrite [of cp_approved "''alice''" k1 ex_env2 _ _ md
        "''admin''" "''late finding''"] k1
    by simp
  have r2: "ApproveKYC ex_env2 ''bob'' ''admin'' ''LOW'' cp_pending
      = (Inl (FailedToGetKYC (KYCDoesNotExist ''bob'')), cp_pending)"
    using C8_approve_reject_overwrite [of cp_pending "''bob''" _ ex_env2 "''admin''" "''LOW''"] bob
    by simp
  have r3: "GetState (snd (ApproveKYC ex_env2 ''bob'' ''admin'' ''LOW'' cp_approved)) ''alice''
      = GetState cp_approved ''alice''"
    using C8_approve_reject_overwrite [of cp_approved "''bob''" _ ex_env2 "''admin''" "''LOW''"
        _ _ _ "''alice''"]
    by simp
  show ?thesis
    using k0 bob r0 r1 r2 r3 by simp
qed

section \<open>CorporateAction: creation and one-shot processing\<close>





text \<open>
  C7. Every Create operation fails with \<open>AlreadyExists\<close> when the target key is already
  populated and leaves the state unchanged, with AML checks as the sole upsertable
  exception: in particular a second \<open>CreateKYC\<close> for the same address fails \<open>AlreadyExists\<close>
  with state identical to after the first call, and the same guard holds for
  \<open>CreateCouponPayment\<close> and \<open>CreateRedemption\<close> on an already-existing key.

  \<open>CreateCouponPayment\<close> has no such guard. Its key is made of the bond and of the day the
  call runs, so a second call for the same bond on the same day meets a populated key: it
  succeeds and replaces the record, here a coupon already \<open>PAID\<close>, by a \<open>PENDING\<close> one.
\<close>

theorem C7_coupon_overwrite_counterexample:
  "GetState ca_paid ''COUPON_BOND_001_20240115'' \<noteq> None
   \<and> map_sum id coupon_Status (GetCouponPayment ca_paid ''COUPON_BOND_001_20240115'')
       = Inr ''PAID''
   \<and> fst (CreateCouponPayment ex_env2 ''BOND_001'' ''2024-12-01'' (Finite 75) ca_paid) = Inr ()
   \<and> snd (CreateCouponPayment ex_env2 ''BOND_001'' ''2024-12-01'' (Finite 75) ca_paid) \<noteq> ca_paid
   \<and> map_sum id (\<lambda>c. (coupon_Status c, coupon_Amount c, coupon_PaymentDate c))
        (GetCouponPayment
           (snd (CreateCouponPayment ex_env2 ''BOND_001'' ''2024-12-01'' (Finite 75) ca_paid))
           ''COUPON_BOND_001_20240115'')
       = Inr (''PENDING'', 75, Time 2024 12 1 0)"
proof -
  note defs = ex_ca_defs ca_defs stub_defs date_defs Let_def AList.update_conv'
  let ?again = "CreateCouponPayment ex_env2 ''BOND_001'' ''2024-12-01'' (Finite 75) ca_paid"
  have populated: "GetState ca_paid ''COUPON_BOND_001_20240115'' \<noteq> None"
    by (simp add: defs)
  have paid: "map_sum id coupon_Status (GetCouponPayment ca_paid ''COUPON_BOND_001_20240115'')
      = Inr ''PAID''"
    by (simp add: defs)
  have ok: "fst ?again = Inr ()"
    by (simp add: defs)
  have pending: "map_sum id (\<lambda>c. (coupon_Status c, coupon_Amount c, coupon_PaymentDate c))
      (GetCouponPayment (snd ?again) ''COUPON_BOND_001_20240115'')
      = Inr (''PENDING'', 75, Time 2024 12 1 0)"
    by (simp add: defs)
  have changed: "snd ?again \<noteq> ca_paid"
    by (simp add: defs)
  show ?thesis
    using populated paid ok changed pending by simp
qed

text \<open>
  C7, amended. \<open>CreateKYC\<close> and \<open>IssueBond\<close> fail with \<open>AlreadyExists\<close> when the target key is
  already populated and leave the stub unchanged; in particular a second \<open>CreateKYC\<close> for the
  same address fails \<open>AlreadyExists\<close> with the state identical to the one after the first
  call. \<open>CreateAMLCheck\<close>, \<open>CreateCouponPayment\<close> and \<open>CreateRedemption\<close> have no such guard:
  \<open>CreateAMLCheck\<close> always succeeds, the other two succeed on every parsable date and finite
  amount, and each stores a fresh \<open>PENDING\<close> record under its key whatever the key held.
\<close>

theorem C7_creation_guards:
  "(KYCExists st a \<longrightarrow>
      CreateKYC e a fullName dateOfBirth nationality idType idNumber st
        = (Inl (KYCAlreadyExists a), st)
      \<and> kind_of (KYCAlreadyExists a) = AlreadyExists)
 \<and> CreateKYC e' a fullName' dateOfBirth' nationality' idType' idNumber'
      (snd (CreateKYC e a fullName dateOfBirth nationality idType idNumber st))
      = (Inl (KYCAlreadyExists a),
         snd (CreateKYC e a fullName dateOfBirth nationality idType idNumber st))
 \<and> (BondExists bst bondID \<longrightarrow>
      IssueBond e bondID issuerID issuerName currency isin rating collateral faceValue
          couponRate totalSupply maturityDateStr bst
        = (Inl (BondAlreadyExists bondID), bst)
      \<and> kind_of (BondAlreadyExists bondID) = AlreadyExists)
 \<and> fst (CreateAMLCheck e a checkType riskScore details st) = Inr ()
 \<and> map_sum id aml_Status
      (GetAMLCheck (snd (CreateAMLCheck e a checkType riskScore details st)) (a @ ''_'' @ checkType))
      = Inr ''PENDING''
 \<and> (parse_date dateStr = Some d \<longrightarrow>
      fst (CreateCouponPayment e bondID dateStr (Finite amount) cst) = Inr ()
      \<and> GetCouponPayment (snd (CreateCouponPayment e bondID dateStr (Finite amount) cst))
            (''COUPON_'' @ bondID @ ''_'' @ format_yyyymmdd (now e))
          = Inr \<lparr>coupon_ID = ''COUPON_'' @ bondID @ ''_'' @ format_yyyymmdd (now e),
                 coupon_BondID = bondID, coupon_PaymentDate = d, coupon_Amount = amount,
                 coupon_Status = ''PENDING'', coupon_PaidAt = zero_time, coupon_TxID = [],
                 coupon_Metadata = Some Map.empty\<rparr>
      \<and> fst (CreateRedemption e bondID dateStr (Finite amount) cst) = Inr ()
      \<and> GetRedemption (snd (CreateRedemption e bondID dateStr (Finite amount) cst))
            (''REDEMPTION_'' @ bondID @ ''_'' @ format_yyyymmdd (now e))
          = Inr \<lparr>redemption_ID = ''REDEMPTION_'' @ bondID @ ''_'' @ format_yyyymmdd (now e),
                 redemption_BondID = bondID, redemption_RedemptionDate = d,
                 redemption_Amount = amount, redemption_Status = ''PENDING'',
                 redemption_CompletedAt = zero_time, redemption_TxID = [],
                 redemption_Metadata = Some Map.empty\<rparr>)"
proof -
  let ?first = "CreateKYC e a fullName dateOfBirth nationality idType idNumber st"
  have guarded: "CreateKYC e2 a n2 b2 c2 t2 i2 s = (Inl (KYCAlreadyExists a), s)"
    if "KYCExists s a" for e2 n2 b2 c2 t2 i2 s
    using that by (simp add: CreateKYC_def)
  have after_first: "KYCExists (snd ?first) a"
  proof (cases "KYCExists st a")
    case True
    then show ?thesis by (simp add: guarded)
  next
    case False
    then show ?thesis
      by (simp add: CreateKYC_def Let_def KYCExists_def GetState_SetEvent GetState_PutState)
  qed
  have bond: "IssueBond e bondID issuerID issuerName currency isin rating collateral faceValue
          couponRate totalSupply maturityDateStr bst = (Inl (BondAlreadyExists bondID), bst)"
    if "BondExists bst bondID"
    using that by (simp add: IssueBond_def)
  have aml: "fst (CreateAMLCheck e a checkType riskScore details st) = Inr ()"
    "map_sum id aml_Status
      (GetAMLCheck (snd (CreateAMLCheck e a checkType riskScore details st)) (a @ ''_'' @ checkType))
      = Inr ''PENDING''"
    by (simp_all add: CreateAMLCheck_def Let_def GetAMLCheck_def GetState_SetEvent GetState_PutState)
  have coupon: "fst (CreateCouponPayment e bondID dateStr (Finite amount) cst) = Inr ()
      \<and> GetCouponPayment (snd (CreateCouponPayment e bondID dateStr (Finite amount) cst))
            (''COUPON_'' @ bondID @ ''_'' @ format_yyyymmdd (now e))
          = Inr \<lparr>coupon_ID = ''COUPON_'' @ bondID @ ''_'' @ format_yyyymmdd (now e),
                 coupon_BondID = bondID, coupon_PaymentDate = d, coupon_Amount = amount,
                 coupon_Status = ''PENDING'', coupon_PaidAt = zero_time, coupon_TxID = [],
                 coupon_Metadata = Some Map.empty\<rparr>"
    if "parse_date dateStr = Some d"
    using that
    by (simp add: CreateCouponPayment_def Let_def GetCouponPayment_def
          GetState_SetEvent GetState_PutState)
  have redemption: "fst (CreateRedemption e bondID dateStr (Finite amount) cst) = Inr ()
      \<and> GetRedemption (snd (CreateRedemption e bondID dateStr (Finite amount) cst))
            (''REDEMPTION_'' @ bondID @ ''_'' @ format_yyyymmdd (now e))
          = Inr \<lparr>redemption_ID = ''REDEMPTION_'' @ bondID @ ''_'' @ format_yyyymmdd (now e),
                 redemption_BondID = bondID, redemption_RedemptionDate = d,
                 redemption_Amount = amount, redemption_Status = ''PENDING'',
                 redemption_CompletedAt = zero_time, redemption_TxID = [],
                 redemption_Metadata = Some Map.empty\<rparr>"
    if "parse_date dateStr = Some d"
    using that
    by (simp add: CreateRedemption_def Let_def GetRedemption_def
          GetState_SetEvent GetState_PutState)
  show ?thesis
    using guarded [of st] guarded [OF after_first] bond aml coupon redemption by simp
qed

theorem C7_creation_guards_witness:
  "KYCExists cp_pending ''alice''
   \<and> CreateKYC ex_env2 ''alice'' ''Alice J.'' ''1990-01-01'' ''US'' ''PASSPORT'' ''US123456''
        cp_pending = (Inl (KYCAlreadyExists ''alice''), cp_pending)
   \<and> BondExists ex_issued ''BOND_001''
   \<and> fst (IssueBond ex_env2 ''BOND_001'' ''issuer002'' ''XYZ Corp'' ''EUR'' ''DE0000000002''
        ''B'' ''none'' (Finite 500) (Finite 3) 10 ''2030-01-01'' ex_issued)
       = Inl (BondAlreadyExists ''BOND_001'')
   \<and> parse_date ''2024-12-01'' = Some (Time 2024 12 1 0)
   \<and> GetState ca_paid ''COUPON_BOND_001_20240115'' \<noteq> None
   \<and> fst (CreateCouponPayment ex_env2 ''BOND_001'' ''2024-12-01'' (Finite 75) ca_paid) = Inr ()"
proof -
  have kyc: "KYCExists cp_pending ''alice''"
    by (simp add: ex_cp_defs cp_defs stub_defs Let_def)
  have bond: "BondExists ex_issued ''BOND_001''"
    by (simp add: ex_bt_defs bt_defs stub_defs date_defs Let_def)
  have date: "parse_date ''2024-12-01'' = Some (Time 2024 12 1 0)"
    by (simp add: date_defs Let_def)
  have populated: "GetState ca_paid ''COUPON_BOND_001_20240115'' \<noteq> None"
    by (simp add: ex_ca_defs ca_defs stub_defs date_defs Let_def AList.update_conv')
  note guards = C7_creation_guards [of cp_pending "''alice''" ex_env2 "''Alice J.''"
      "''1990-01-01''" "''US''" "''PASSPORT''" "''US123456''" _ _ _ _ _ _
      ex_issued "''BOND_001''" "''issuer002''" "''XYZ Corp''" "''EUR''" "''DE0000000002''"
      "''B''" "''none''" "Finite 500" "Finite 3" 10 "''2030-01-01''" _ _ _
      "''2024-12-01''" "Time 2024 12 1 0" 75 ca_paid]
  have r0: "CreateKYC ex_env2 ''alice'' ''Alice J.'' ''1990-01-01'' ''US'' ''PASSPORT''
      ''US123456'' cp_pending = (Inl (KYCAlreadyExists ''alice''), cp_pending)"
    using guards kyc by simp
  have r1: "fst (IssueBond ex_env2 ''BOND_001'' ''issuer002'' ''XYZ Corp'' ''EUR''
      ''DE0000000002'' ''B'' ''none'' (Finite 500) (Finite 3) 10 ''2030-01-01'' ex_issued)
      = Inl (BondAlreadyExists ''BOND_001'')"
    using guards bond by simp
  have r2: "fst (CreateCouponPayment ex_env2 ''BOND_001'' ''2024-12-01'' (Finite 75) ca_paid)
      = Inr ()"
    using guards date by simp
  show ?thesis
    using kyc bond date populated r0 r1 r2 by simp
qed



end
